theory Spec2Isabelle
  imports Main "HOL-Library.AList"
begin

section \<open>Python values and exceptions\<close>

text \<open>
  The exception classes the program raises, catches or can be handed by the libraries it
  calls. \<open>OtherException\<close> stands for any further subclass of \<^verbatim>\<open>Exception\<close> that is
  not a subclass of one named here. Only instances of \<^verbatim>\<open>Exception\<close> are modelled
  (no \<^verbatim>\<open>KeyboardInterrupt\<close>, \<^verbatim>\<open>SystemExit\<close> or task cancellation).
  \<open>HttpxTimeoutException\<close> is \<^verbatim>\<open>httpx.TimeoutException\<close> with its subclasses,
  \<open>HttpxHTTPError\<close> the other subclasses of \<^verbatim>\<open>httpx.HTTPError\<close>.
\<close>

datatype exn_class =
    JSONDecodeError | ValueError | SyntaxError | TypeError | AttributeError
  | KeyError | IndexError | RecursionError | MemoryError
  | APITimeoutError | HttpxTimeoutException | HttpxHTTPError
  | OtherException string

text \<open>An exception instance: its class and \<^verbatim>\<open>str(e)\<close>.\<close>

datatype py_exn = PyExn (exn_class: exn_class) (exn_str: string)

text \<open>
  \<^verbatim>\<open>issubclass\<close>: \<^verbatim>\<open>JSONDecodeError\<close> derives from \<^verbatim>\<open>ValueError\<close>,
  \<^verbatim>\<open>httpx.TimeoutException\<close> from \<^verbatim>\<open>httpx.HTTPError\<close>.
\<close>

definition exn_subclass :: "exn_class \<Rightarrow> exn_class \<Rightarrow> bool" where
  "exn_subclass c d = (c = d \<or> (c = JSONDecodeError \<and> d = ValueError)
                        \<or> (c = HttpxTimeoutException \<and> d = HttpxHTTPError))"

text \<open>\<^verbatim>\<open>except (D1, D2, ...)\<close> catches \<open>e\<close>.\<close>

definition caught :: "py_exn \<Rightarrow> exn_class list \<Rightarrow> bool" where
  "caught e ds = list_ex (exn_subclass (exn_class e)) ds"

text \<open>A computation that raised an exception of class \<open>c\<close>.\<close>

definition raises :: "exn_class \<Rightarrow> py_exn + 'a \<Rightarrow> bool" where
  "raises c r = (case r of Inl e \<Rightarrow> exn_class e = c | Inr _ \<Rightarrow> False)"

text \<open>
  A Python \<^verbatim>\<open>float\<close> is kept as the decimal \<open>m * 10 ^ e\<close> it was read from (every double
  is such a decimal), or as one of the three special values. The only operation the
  program applies to a float is its truth value: the double nearest to \<open>m * 10 ^ e\<close> is
  zero exactly when \<open>|m * 10 ^ e| \<le> 2 ^ -1075\<close> (round half to even below the least
  subnormal \<open>2 ^ -1074\<close>).
\<close>

datatype pyfloat = FDec int int | FInf | FNegInf | FNaN

fun float_nonzero :: "pyfloat \<Rightarrow> bool" where
  "float_nonzero (FDec m e) =
     (if 0 \<le> e then m \<noteq> 0 else \<not> (\<bar>m\<bar> * 2 ^ 1075 \<le> 10 ^ nat (- e)))"
| "float_nonzero FInf = True"
| "float_nonzero FNegInf = True"
| "float_nonzero FNaN = True"

text \<open>
  The values \<^verbatim>\<open>json.loads\<close> and \<^verbatim>\<open>ast.literal_eval\<close> can return. A \<^verbatim>\<open>str\<close> is the list of
  its UTF-8 bytes. A \<^verbatim>\<open>dict\<close> is an association list in insertion order (\<open>map_of\<close> looks a
  key up); a \<^verbatim>\<open>set\<close> is the list of its members.
\<close>

datatype pyval =
    PNone
  | PBool bool
  | PInt int
  | PFloat pyfloat
  | PComplex pyfloat pyfloat
  | PStr string
  | PBytes string
  | PList "pyval list"
  | PTuple "pyval list"
  | PSet "pyval list"
  | PDict "(pyval \<times> pyval) list"
  | PEllipsis

text \<open>\<^verbatim>\<open>bool(v)\<close>, as \<^verbatim>\<open>if v:\<close> and \<^verbatim>\<open>not v\<close> evaluate it.\<close>

fun truthy :: "pyval \<Rightarrow> bool" where
  "truthy PNone = False"
| "truthy (PBool b) = b"
| "truthy (PInt n) = (n \<noteq> 0)"
| "truthy (PFloat f) = float_nonzero f"
| "truthy (PComplex r i) = (float_nonzero r \<or> float_nonzero i)"
| "truthy (PStr s) = (s \<noteq> [])"
| "truthy (PBytes s) = (s \<noteq> [])"
| "truthy (PList xs) = (xs \<noteq> [])"
| "truthy (PTuple xs) = (xs \<noteq> [])"
| "truthy (PSet xs) = (xs \<noteq> [])"
| "truthy (PDict d) = (d \<noteq> [])"
| "truthy PEllipsis = True"

text \<open>\<^verbatim>\<open>isinstance(v, str)\<close> and \<^verbatim>\<open>isinstance(v, list)\<close>.\<close>

fun is_str :: "pyval \<Rightarrow> bool" where
  "is_str (PStr s) = True"
| "is_str v = False"

fun is_list :: "pyval \<Rightarrow> bool" where
  "is_list (PList xs) = True"
| "is_list v = False"

text \<open>\<^verbatim>\<open>type(v).__name__\<close>, for the interpreter's messages.\<close>

fun type_name :: "pyval \<Rightarrow> string" where
  "type_name PNone = ''NoneType''"
| "type_name (PBool b) = ''bool''"
| "type_name (PInt n) = ''int''"
| "type_name (PFloat f) = ''float''"
| "type_name (PComplex r i) = ''complex''"
| "type_name (PStr s) = ''str''"
| "type_name (PBytes s) = ''bytes''"
| "type_name (PList xs) = ''list''"
| "type_name (PTuple xs) = ''tuple''"
| "type_name (PSet xs) = ''set''"
| "type_name (PDict d) = ''dict''"
| "type_name PEllipsis = ''ellipsis''"

text \<open>A text between single quotes, as messages and f-strings write it.\<close>

definition quoted :: "string \<Rightarrow> string" where
  "quoted s = CHR 0x27 # s @ [CHR 0x27]"

text \<open>\<^verbatim>\<open>k in s\<close> for two strings: \<open>k\<close> occurs in \<open>s\<close> as a contiguous substring.\<close>

fun substring_of :: "string \<Rightarrow> string \<Rightarrow> bool" where
  "substring_of k [] = (k = [])"
| "substring_of k (c # cs) = (take (length k) (c # cs) = k \<or> substring_of k cs)"

text \<open>
  \<^verbatim>\<open>"k" in v\<close> for a string literal \<open>k\<close>: key membership for a dict, element
  membership for a list, tuple or set (a string equals only a string), substring test
  for a string; any other operand raises \<^verbatim>\<open>TypeError\<close>. The message texts of exceptions
  the interpreter raises are those of CPython 3.12.
\<close>

fun py_contains :: "string \<Rightarrow> pyval \<Rightarrow> py_exn + bool" where
  "py_contains k (PDict d) = Inr (map_of d (PStr k) \<noteq> None)"
| "py_contains k (PList xs) = Inr (PStr k \<in> set xs)"
| "py_contains k (PTuple xs) = Inr (PStr k \<in> set xs)"
| "py_contains k (PSet xs) = Inr (PStr k \<in> set xs)"
| "py_contains k (PStr s) = Inr (substring_of k s)"
| "py_contains k (PBytes s) = Inl (PyExn TypeError (''a bytes-like object is required, not '' @ quoted ''str''))"
| "py_contains k v =
     Inl (PyExn TypeError (''argument of type '' @ quoted (type_name v) @ '' is not iterable''))"

text \<open>\<^verbatim>\<open>v["k"]\<close> for a string literal \<open>k\<close>.\<close>

fun py_getitem_str :: "pyval \<Rightarrow> string \<Rightarrow> py_exn + pyval" where
  "py_getitem_str (PDict d) k =
     (case map_of d (PStr k) of
        Some v \<Rightarrow> Inr v
      | None \<Rightarrow> Inl (PyExn KeyError (quoted k)))"
| "py_getitem_str (PList xs) k =
     Inl (PyExn TypeError ''list indices must be integers or slices, not str'')"
| "py_getitem_str (PTuple xs) k =
     Inl (PyExn TypeError ''tuple indices must be integers or slices, not str'')"
| "py_getitem_str (PStr s) k =
     Inl (PyExn TypeError (''string indices must be integers, not '' @ quoted ''str''))"
| "py_getitem_str (PBytes s) k =
     Inl (PyExn TypeError ''byte indices must be integers or slices, not str'')"
| "py_getitem_str v k =
     Inl (PyExn TypeError (quoted (type_name v) @ '' object is not subscriptable''))"

text \<open>
  The first code point of a non-empty string, as its UTF-8 bytes: the lead byte tells how
  many bytes it takes.
\<close>

definition first_char :: "string \<Rightarrow> string" where
  "first_char s =
     (let b = (of_char (hd s) :: nat)
      in take (if b < 0xC0 then 1 else if b < 0xE0 then 2 else if b < 0xF0 then 3 else 4) s)"

text \<open>
  \<^verbatim>\<open>v[0]\<close>. The dicts the program subscripts this way are decoded JSON objects, whose
  keys are strings, so the key \<open>0\<close> is looked up as it stands.
\<close>

fun py_getitem_0 :: "pyval \<Rightarrow> py_exn + pyval" where
  "py_getitem_0 (PList xs) =
     (case xs of [] \<Rightarrow> Inl (PyExn IndexError ''list index out of range'') | x # _ \<Rightarrow> Inr x)"
| "py_getitem_0 (PTuple xs) =
     (case xs of [] \<Rightarrow> Inl (PyExn IndexError ''tuple index out of range'') | x # _ \<Rightarrow> Inr x)"
| "py_getitem_0 (PStr s) =
     (if s = [] then Inl (PyExn IndexError ''string index out of range'')
      else Inr (PStr (first_char s)))"
| "py_getitem_0 (PBytes s) =
     (case s of [] \<Rightarrow> Inl (PyExn IndexError ''index out of range'')
      | c # _ \<Rightarrow> Inr (PInt (of_char c)))"
| "py_getitem_0 (PDict d) =
     (case map_of d (PInt 0) of Some v \<Rightarrow> Inr v | None \<Rightarrow> Inl (PyExn KeyError ''0''))"
| "py_getitem_0 v =
     Inl (PyExn TypeError (quoted (type_name v) @ '' object is not subscriptable''))"

text \<open>\<^verbatim>\<open>v.get("k", default)\<close>: only a dict has the method.\<close>

fun py_get :: "pyval \<Rightarrow> string \<Rightarrow> pyval \<Rightarrow> py_exn + pyval" where
  "py_get (PDict d) k dflt = Inr (case map_of d (PStr k) of Some v \<Rightarrow> v | None \<Rightarrow> dflt)"
| "py_get v k dflt =
     Inl (PyExn AttributeError (quoted (type_name v) @ '' object has no attribute '' @ quoted ''get''))"

text \<open>\<^verbatim>\<open>v.copy()\<close>: dicts, lists and sets have the method.\<close>

fun py_copy :: "pyval \<Rightarrow> py_exn + pyval" where
  "py_copy (PDict d) = Inr (PDict d)"
| "py_copy (PList xs) = Inr (PList xs)"
| "py_copy (PSet xs) = Inr (PSet xs)"
| "py_copy v =
     Inl (PyExn AttributeError (quoted (type_name v) @ '' object has no attribute '' @ quoted ''copy''))"

text \<open>\<^verbatim>\<open>v["k"] = x\<close> for a string literal \<open>k\<close>.\<close>

fun py_setitem_str :: "pyval \<Rightarrow> string \<Rightarrow> pyval \<Rightarrow> py_exn + pyval" where
  "py_setitem_str (PDict d) k x = Inr (PDict (AList.update (PStr k) x d))"
| "py_setitem_str (PList xs) k x =
     Inl (PyExn TypeError ''list indices must be integers or slices, not str'')"
| "py_setitem_str v k x =
     Inl (PyExn TypeError (quoted (type_name v) @ '' object does not support item assignment''))"


section \<open>The standard library's JSON decoder\<close>

text \<open>
  \<^verbatim>\<open>json.loads\<close> with its default settings, on a \<^verbatim>\<open>str\<close> given as UTF-8 bytes: the grammar of
  RFC 8259 extended by \<^verbatim>\<open>NaN\<close>, \<^verbatim>\<open>Infinity\<close> and \<^verbatim>\<open>-Infinity\<close>, strict about control
  characters in strings, the last value winning for a repeated object key. Every text
  it rejects raises \<^verbatim>\<open>JSONDecodeError\<close>; the position-dependent message is not modelled
  (the program discards it). The interpreter's resource limits (recursion depth, the
  digit limit of integer conversion) are not part of this decoder; the functions below
  that call a decoder take it as a parameter, so their theorems hold for any decoder.

  The text is cut into tokens first. Between any two tokens the decoder skips the four
  whitespace characters, so the cut does not depend on the context.
\<close>

datatype jtoken = TLBrace | TRBrace | TLBrack | TRBrack | TComma | TColon | TScalar pyval

definition is_ws :: "char \<Rightarrow> bool" where
  "is_ws c = (c = CHR '' '' \<or> c = CHR 0x09 \<or> c = CHR 0x0A \<or> c = CHR 0x0D)"

definition is_digit :: "char \<Rightarrow> bool" where
  "is_digit c = (48 \<le> (of_char c :: nat) \<and> (of_char c :: nat) \<le> 57)"

definition is_numchar :: "char \<Rightarrow> bool" where
  "is_numchar c = (is_digit c \<or> c = CHR ''-'' \<or> c = CHR ''+'' \<or> c = CHR ''.''
                   \<or> c = CHR ''e'' \<or> c = CHR ''E'')"

definition digits_val :: "string \<Rightarrow> int" where
  "digits_val ds = foldl (\<lambda>a c. 10 * a + (of_char c - 48)) 0 ds"

text \<open>
  A number lexeme, by the decoder's pattern
  \<^verbatim>\<open>(-?(?:0|[1-9][0-9]*))(\.[0-9]+)?([eE][-+]?[0-9]+)?\<close>: an \<^verbatim>\<open>int\<close> when it has neither
  fraction nor exponent, a \<^verbatim>\<open>float\<close> otherwise.
\<close>

definition split_sign :: "string \<Rightarrow> bool \<times> string" where
  "split_sign s = (case s of c # cs \<Rightarrow> if c = CHR ''-'' then (True, cs) else (False, s)
                   | [] \<Rightarrow> (False, s))"

definition split_fraction :: "string \<Rightarrow> string option \<times> string" where
  "split_fraction s =
     (case s of
        c # cs \<Rightarrow> if c = CHR ''.'' then (Some (takeWhile is_digit cs), dropWhile is_digit cs)
                  else (None, s)
      | [] \<Rightarrow> (None, s))"

definition split_exponent :: "string \<Rightarrow> (bool \<times> string) option \<times> string" where
  "split_exponent s =
     (case s of
        c # cs \<Rightarrow>
          if c = CHR ''e'' \<or> c = CHR ''E'' then
            (case cs of
               d # ds \<Rightarrow>
                 if d = CHR ''-'' then (Some (True, takeWhile is_digit ds), dropWhile is_digit ds)
                 else if d = CHR ''+'' then (Some (False, takeWhile is_digit ds), dropWhile is_digit ds)
                 else (Some (False, takeWhile is_digit cs), dropWhile is_digit cs)
             | [] \<Rightarrow> (Some (False, []), []))
          else (None, s)
      | [] \<Rightarrow> (None, s))"

definition number_of_lexeme :: "string \<Rightarrow> pyval option" where
  "number_of_lexeme s =
     (let (neg, s1) = split_sign s;
          ip = takeWhile is_digit s1;
          (fp, s3) = split_fraction (dropWhile is_digit s1);
          (ex, s4) = split_exponent s3;
          sg = (if neg then - 1 else 1)
      in if ip = [] \<or> (hd ip = CHR ''0'' \<and> tl ip \<noteq> []) \<or> fp = Some []
            \<or> (case ex of Some (_, ds) \<Rightarrow> ds = [] | None \<Rightarrow> False) \<or> s4 \<noteq> []
         then None
         else if fp = None \<and> ex = None then Some (PInt (sg * digits_val ip))
         else
           (let fr = (case fp of Some ds \<Rightarrow> ds | None \<Rightarrow> []);
                e = (case ex of Some (eneg, ds) \<Rightarrow> (if eneg then - digits_val ds else digits_val ds)
                     | None \<Rightarrow> 0)
            in Some (PFloat (FDec (sg * digits_val (ip @ fr)) (e - int (length fr))))))"

text \<open>String escapes. \<^verbatim>\<open>\uXXXX\<close> takes four hexadecimal digits.\<close>

definition simple_escape :: "char \<Rightarrow> char option" where
  "simple_escape e =
     (if e = CHR 0x22 then Some (CHR 0x22)
      else if e = CHR 0x5C then Some (CHR 0x5C)
      else if e = CHR ''/'' then Some (CHR ''/'')
      else if e = CHR ''b'' then Some (CHR 0x08)
      else if e = CHR ''f'' then Some (CHR 0x0C)
      else if e = CHR ''n'' then Some (CHR 0x0A)
      else if e = CHR ''r'' then Some (CHR 0x0D)
      else if e = CHR ''t'' then Some (CHR 0x09)
      else None)"

definition hex_val :: "char \<Rightarrow> nat option" where
  "hex_val c =
     (let n = (of_char c :: nat)
      in if 48 \<le> n \<and> n \<le> 57 then Some (n - 48)
         else if 97 \<le> n \<and> n \<le> 102 then Some (n - 87)
         else if 65 \<le> n \<and> n \<le> 70 then Some (n - 55)
         else None)"

definition hex4 :: "string \<Rightarrow> nat option" where
  "hex4 s =
     (case map hex_val (take 4 s) of
        [Some a, Some b, Some c, Some d] \<Rightarrow> Some (((a * 16 + b) * 16 + c) * 16 + d)
      | _ \<Rightarrow> None)"

text \<open>
  The UTF-8 bytes of a code point. A lone surrogate, which a Python \<^verbatim>\<open>str\<close> can hold, gets
  the three-byte form.
\<close>

definition utf8_encode :: "nat \<Rightarrow> string" where
  "utf8_encode cp =
     (if cp < 0x80 then [char_of cp]
      else if cp < 0x800 then [char_of (0xC0 + cp div 64), char_of (0x80 + cp mod 64)]
      else if cp < 0x10000 then
        [char_of (0xE0 + cp div 4096), char_of (0x80 + (cp div 64) mod 64),
         char_of (0x80 + cp mod 64)]
      else
        [char_of (0xF0 + cp div 262144), char_of (0x80 + (cp div 4096) mod 64),
         char_of (0x80 + (cp div 64) mod 64), char_of (0x80 + cp mod 64)])"

text \<open>
  The text after \<^verbatim>\<open>\u\<close>: the bytes it denotes and how many characters it takes (4, or 10
  when a high surrogate is followed by an escaped low surrogate, which the decoder joins).
\<close>

definition decode_u :: "string \<Rightarrow> (string \<times> nat) option" where
  "decode_u s =
     (case hex4 s of
        None \<Rightarrow> None
      | Some hi \<Rightarrow>
          if 0xD800 \<le> hi \<and> hi \<le> 0xDBFF \<and> take 2 (drop 4 s) = [CHR 0x5C, CHR ''u''] then
            (case hex4 (drop 6 s) of
               None \<Rightarrow> None
             | Some lo \<Rightarrow>
                 if 0xDC00 \<le> lo \<and> lo \<le> 0xDFFF
                 then Some (utf8_encode (0x10000 + (hi - 0xD800) * 1024 + (lo - 0xDC00)), 10)
                 else Some (utf8_encode hi, 4))
          else Some (utf8_encode hi, 4))"

text \<open>
  The tokenizer. Its first argument is \<open>None\<close> between tokens and \<open>Some acc\<close> inside a
  string literal, \<open>acc\<close> being the bytes decoded so far. \<open>None\<close> as result: the text is
  not a sequence of JSON tokens.
\<close>

function lex :: "string option \<Rightarrow> string \<Rightarrow> jtoken list option" where
  "lex None [] = Some []"
| "lex None (c # cs) =
     (if is_ws c then lex None cs
      else if c = CHR ''{'' then map_option ((#) TLBrace) (lex None cs)
      else if c = CHR ''}'' then map_option ((#) TRBrace) (lex None cs)
      else if c = CHR ''['' then map_option ((#) TLBrack) (lex None cs)
      else if c = CHR '']'' then map_option ((#) TRBrack) (lex None cs)
      else if c = CHR '','' then map_option ((#) TComma) (lex None cs)
      else if c = CHR '':'' then map_option ((#) TColon) (lex None cs)
      else if c = CHR 0x22 then lex (Some []) cs
      else if take 4 (c # cs) = ''null''
        then map_option ((#) (TScalar PNone)) (lex None (drop 3 cs))
      else if take 4 (c # cs) = ''true''
        then map_option ((#) (TScalar (PBool True))) (lex None (drop 3 cs))
      else if take 5 (c # cs) = ''false''
        then map_option ((#) (TScalar (PBool False))) (lex None (drop 4 cs))
      else if take 3 (c # cs) = ''NaN''
        then map_option ((#) (TScalar (PFloat FNaN))) (lex None (drop 2 cs))
      else if take 8 (c # cs) = ''Infinity''
        then map_option ((#) (TScalar (PFloat FInf))) (lex None (drop 7 cs))
      else if take 9 (c # cs) = ''-Infinity''
        then map_option ((#) (TScalar (PFloat FNegInf))) (lex None (drop 8 cs))
      else if c = CHR ''-'' \<or> is_digit c then
        (case number_of_lexeme (c # takeWhile is_numchar cs) of
           None \<Rightarrow> None
         | Some v \<Rightarrow> map_option ((#) (TScalar v)) (lex None (dropWhile is_numchar cs)))
      else None)"
| "lex (Some acc) [] = None"
| "lex (Some acc) (c # cs) =
     (if c = CHR 0x22 then map_option ((#) (TScalar (PStr acc))) (lex None cs)
      else if c = CHR 0x5C then
        (case cs of
           [] \<Rightarrow> None
         | e # es \<Rightarrow>
             if e = CHR ''u'' then
               (case decode_u es of
                  None \<Rightarrow> None
                | Some (bs, n) \<Rightarrow> lex (Some (acc @ bs)) (drop n es))
             else
               (case simple_escape e of
                  None \<Rightarrow> None
                | Some b \<Rightarrow> lex (Some (acc @ [b])) es))
      else if (of_char c :: nat) < 32 then None
      else lex (Some (acc @ [c])) cs)"
  by pat_completeness auto
termination
  by (relation "measure (\<lambda>(m, s). length s)")
     (simp_all add: le_imp_less_Suc length_dropWhile_le)

text \<open>
  The parser is a stack machine over the tokens. A frame is an array with the elements so
  far, an object with the pairs so far, or an object whose next key has been read.
\<close>

datatype jframe =
    FArr "pyval list"
  | FObj "(pyval \<times> pyval) list"
  | FKey "(pyval \<times> pyval) list" string

datatype jmode =
    MValue      \<comment> \<open>a value must follow\<close>
  | MArrStart   \<comment> \<open>after \<^verbatim>\<open>[\<close>: a value or \<^verbatim>\<open>]\<close>\<close>
  | MObjStart   \<comment> \<open>after \<^verbatim>\<open>{\<close>: a key or \<^verbatim>\<open>}\<close>\<close>
  | MKey        \<comment> \<open>after a comma in an object: a key\<close>
  | MColon      \<comment> \<open>after a key: the colon\<close>
  | MAfter      \<comment> \<open>after a value in a container: a comma or the closing bracket\<close>
  | MDone pyval \<comment> \<open>the top-level value is complete\<close>

text \<open>A value is complete: it is the result, an array element or the value of the pending key.\<close>

fun complete :: "pyval \<Rightarrow> jframe list \<Rightarrow> (jmode \<times> jframe list) option" where
  "complete v [] = Some (MDone v, [])"
| "complete v (FArr es # st) = Some (MAfter, FArr (es @ [v]) # st)"
| "complete v (FKey ps k # st) = Some (MAfter, FObj (AList.update (PStr k) v ps) # st)"
| "complete v (FObj ps # st) = None"

definition jstep :: "jmode \<times> jframe list \<Rightarrow> jtoken \<Rightarrow> (jmode \<times> jframe list) option" where
  "jstep s tok =
     (let m = fst s; st = snd s in
      case tok of
        TScalar v \<Rightarrow>
          if m = MValue \<or> m = MArrStart then complete v st
          else if m = MObjStart \<or> m = MKey then
            (case (v, st) of
               (PStr k, FObj ps # st') \<Rightarrow> Some (MColon, FKey ps k # st')
             | _ \<Rightarrow> None)
          else None
      | TLBrack \<Rightarrow> if m = MValue \<or> m = MArrStart then Some (MArrStart, FArr [] # st) else None
      | TLBrace \<Rightarrow> if m = MValue \<or> m = MArrStart then Some (MObjStart, FObj [] # st) else None
      | TRBrack \<Rightarrow>
          if m = MArrStart \<or> m = MAfter then
            (case st of FArr es # st' \<Rightarrow> complete (PList es) st' | _ \<Rightarrow> None)
          else None
      | TRBrace \<Rightarrow>
          if m = MObjStart \<or> m = MAfter then
            (case st of FObj ps # st' \<Rightarrow> complete (PDict ps) st' | _ \<Rightarrow> None)
          else None
      | TComma \<Rightarrow>
          if m = MAfter then
            (case st of
               FArr es # st' \<Rightarrow> Some (MValue, st)
             | FObj ps # st' \<Rightarrow> Some (MKey, st)
             | _ \<Rightarrow> None)
          else None
      | TColon \<Rightarrow> if m = MColon then Some (MValue, st) else None)"

fun run_tokens :: "jmode \<times> jframe list \<Rightarrow> jtoken list \<Rightarrow> (jmode \<times> jframe list) option" where
  "run_tokens s [] = Some s"
| "run_tokens s (t # ts) = (case jstep s t of None \<Rightarrow> None | Some s' \<Rightarrow> run_tokens s' ts)"

definition parse_tokens :: "jtoken list \<Rightarrow> pyval option" where
  "parse_tokens toks =
     (case run_tokens (MValue, []) toks of
        Some (MDone v, []) \<Rightarrow> Some v
      | _ \<Rightarrow> None)"

definition json_decode_error :: py_exn where
  "json_decode_error = PyExn JSONDecodeError []"

definition json_loads :: "string \<Rightarrow> py_exn + pyval" where
  "json_loads s =
     (case lex None s of
        None \<Rightarrow> Inl json_decode_error
      | Some toks \<Rightarrow>
          (case parse_tokens toks of None \<Rightarrow> Inl json_decode_error | Some v \<Rightarrow> Inr v))"


section \<open>Tool invocations and stream fragments\<close>

text \<open>
  \<^verbatim>\<open>models.py\<close>: \<^verbatim>\<open>InvokedFunction\<close> and \<^verbatim>\<open>ToolInvocation\<close> are dataclasses whose
  string fields default to the empty string; \<^verbatim>\<open>ToolInvocation.__post_init__\<close> supplies a
  fresh \<^verbatim>\<open>InvokedFunction()\<close>. Python strings are modelled as \<open>string\<close>.
\<close>

record InvokedFunction =
  fn_name :: string
  fn_arguments :: string

record ToolInvocation =
  ti_id :: string
  ti_function :: InvokedFunction

definition new_InvokedFunction :: InvokedFunction where
  "new_InvokedFunction = \<lparr>fn_name = [], fn_arguments = []\<rparr>"

definition new_ToolInvocation :: ToolInvocation where
  "new_ToolInvocation = \<lparr>ti_id = [], ti_function = new_InvokedFunction\<rparr>"

text \<open>
  One entry of \<^verbatim>\<open>delta.tool_calls\<close> as \<^verbatim>\<open>_accumulate_tool_call_chunk\<close> reads it:
  \<^verbatim>\<open>tc.index\<close>, \<^verbatim>\<open>tc.id\<close>, \<^verbatim>\<open>tc.function.name\<close>, \<^verbatim>\<open>tc.function.arguments\<close>. Each text
  piece may be absent (\<^verbatim>\<open>None\<close>) or empty; the code tests it for truthiness. The code
  reads \<^verbatim>\<open>tc.function.name\<close> without a test, so a fragment has its function part.
\<close>

record function_delta =
  fd_name :: "string option"
  fd_arguments :: "string option"

record tool_call_delta =
  tcd_index :: int
  tcd_id :: "string option"
  tcd_function :: function_delta

definition frag :: "int \<Rightarrow> string option \<Rightarrow> string option \<Rightarrow> string option \<Rightarrow> tool_call_delta" where
  "frag i a n g = \<lparr>tcd_index = i, tcd_id = a, tcd_function = \<lparr>fd_name = n, fd_arguments = g\<rparr>\<rparr>"

text \<open>\<^verbatim>\<open>if x:\<close> for an optional string: neither \<^verbatim>\<open>None\<close> nor \<^verbatim>\<open>""\<close>.\<close>

definition str_truthy :: "string option \<Rightarrow> bool" where
  "str_truthy x = (case x of None \<Rightarrow> False | Some s \<Rightarrow> s \<noteq> [])"

section \<open>Tool Call Assembler (assistant.py)\<close>

text \<open>
  The buffer \<^verbatim>\<open>Dict[int, ToolInvocation]\<close> is an association list in insertion order, as a
  Python dict is: a new key goes to the end (\<open>AList.update\<close>), the object stored under an
  existing key is changed in place (\<open>AList.map_entry\<close>).

  The body of the \<^verbatim>\<open>for tc in tool_calls_delta\<close> loop:
  \<^verbatim>\<open>
      idx = tc.index
      if idx not in tool_calls_buffer:
          tool_calls_buffer[idx] = ToolInvocation()
      if tc.id:
          tool_calls_buffer[idx].id += tc.id
      if tc.function.name:
          tool_calls_buffer[idx].function.name += tc.function.name
      if tc.function.arguments:
          tool_calls_buffer[idx].function.arguments += tc.function.arguments
  \<close>
\<close>

type_synonym tool_calls_buffer = "(int \<times> ToolInvocation) list"

definition accumulate_fragment :: "tool_call_delta \<Rightarrow> tool_calls_buffer \<Rightarrow> tool_calls_buffer" where
  "accumulate_fragment tc buf =
    (let idx = tcd_index tc;
         b0 = (if map_of buf idx = None then AList.update idx new_ToolInvocation buf else buf);
         b1 = (if str_truthy (tcd_id tc)
               then AList.map_entry idx (\<lambda>t. t\<lparr>ti_id := ti_id t @ the (tcd_id tc)\<rparr>) b0
               else b0);
         b2 = (if str_truthy (fd_name (tcd_function tc))
               then AList.map_entry idx
                      (\<lambda>t. t\<lparr>ti_function := (ti_function t)
                             \<lparr>fn_name := fn_name (ti_function t) @ the (fd_name (tcd_function tc))\<rparr>\<rparr>) b1
               else b1);
         b3 = (if str_truthy (fd_arguments (tcd_function tc))
               then AList.map_entry idx
                      (\<lambda>t. t\<lparr>ti_function := (ti_function t)
                             \<lparr>fn_arguments := fn_arguments (ti_function t)
                                               @ the (fd_arguments (tcd_function tc))\<rparr>\<rparr>) b2
               else b2)
     in b3)"

definition accumulate_tool_call_chunk ::
    "tool_call_delta list \<Rightarrow> tool_calls_buffer \<Rightarrow> tool_calls_buffer" where
  "accumulate_tool_call_chunk tool_calls_delta buf = fold accumulate_fragment tool_calls_delta buf"

text \<open>
  \<^verbatim>\<open>return [tool_calls_buffer[idx] for idx in sorted(tool_calls_buffer.keys())]\<close>.
  The subscript cannot raise \<^verbatim>\<open>KeyError\<close>: every \<open>idx\<close> is a key of the buffer
  (lemma \<open>convert_lookup_defined\<close> below).
\<close>

definition convert_tool_calls_buffer :: "tool_calls_buffer \<Rightarrow> ToolInvocation list" where
  "convert_tool_calls_buffer buf = map (\<lambda>idx. the (map_of buf idx)) (sort (map fst buf))"

text \<open>
  The assembler over a whole stream: \<^verbatim>\<open>_process_stream\<close> starts from the empty buffer and
  calls \<^verbatim>\<open>_accumulate_tool_call_chunk\<close> once per chunk that carries tool-call fragments;
  \<^verbatim>\<open>_handle_stream_response\<close> converts the buffer at stream end.
\<close>

definition assemble :: "tool_call_delta list list \<Rightarrow> ToolInvocation list" where
  "assemble chunks = convert_tool_calls_buffer (fold accumulate_tool_call_chunk chunks [])"

subsection \<open>What the specification says the assembler computes\<close>

text \<open>The fragments of slot \<open>i\<close>, in arrival order.\<close>

definition slot_fragments :: "int \<Rightarrow> tool_call_delta list \<Rightarrow> tool_call_delta list" where
  "slot_fragments i frags = filter (\<lambda>tc. tcd_index tc = i) frags"

definition piece :: "string option \<Rightarrow> string" where
  "piece x = (case x of None \<Rightarrow> [] | Some s \<Rightarrow> s)"

text \<open>Field-wise concatenation of a slot's pieces, in the order given.\<close>

definition concatenated :: "tool_call_delta list \<Rightarrow> ToolInvocation" where
  "concatenated fs =
     \<lparr>ti_id = concat (map (\<lambda>tc. piece (tcd_id tc)) fs),
      ti_function =
        \<lparr>fn_name = concat (map (\<lambda>tc. piece (fd_name (tcd_function tc))) fs),
         fn_arguments = concat (map (\<lambda>tc. piece (fd_arguments (tcd_function tc))) fs)\<rparr>\<rparr>"

text \<open>The slot indices that occur, each once, ascending.\<close>

definition slots :: "tool_call_delta list \<Rightarrow> int list" where
  "slots frags = sorted_list_of_set (tcd_index ` set frags)"

text \<open>Appending a slot's further fragments to an invocation already in the buffer.\<close>

definition extend_invocation :: "ToolInvocation \<Rightarrow> tool_call_delta list \<Rightarrow> ToolInvocation" where
  "extend_invocation t fs =
     \<lparr>ti_id = ti_id t @ ti_id (concatenated fs),
      ti_function =
        \<lparr>fn_name = fn_name (ti_function t) @ fn_name (ti_function (concatenated fs)),
         fn_arguments = fn_arguments (ti_function t) @ fn_arguments (ti_function (concatenated fs))\<rparr>\<rparr>"


section \<open>Library functions taken as parameters\<close>

text \<open>
  The program calls three functions of the Python runtime on values it does not control:
  \<^verbatim>\<open>json.loads\<close>, \<^verbatim>\<open>ast.literal_eval\<close> and the conversion \<^verbatim>\<open>str(v)\<close> that an f-string applies.
  They are parameters of the model, so every theorem with a free \<open>L\<close> holds whatever they
  return or raise. \<open>json_loads\<close> above is the decoder used where a closed evaluation
  needs one.
\<close>

record pylib =
  lib_json_loads :: "string \<Rightarrow> py_exn + pyval"
  lib_literal_eval :: "string \<Rightarrow> py_exn + pyval"
  lib_str :: "pyval \<Rightarrow> string"

text \<open>\<^verbatim>\<open>f"{v}"\<close>: a string is inserted as it is, any other value through \<^verbatim>\<open>str\<close>.\<close>

definition py_format :: "pylib \<Rightarrow> pyval \<Rightarrow> string" where
  "py_format L v = (case v of PStr s \<Rightarrow> s | _ \<Rightarrow> lib_str L v)"

text \<open>Sequencing of computations that may raise: the first exception ends the sequence.\<close>

definition then_do :: "py_exn + 'a \<Rightarrow> ('a \<Rightarrow> py_exn + 'b) \<Rightarrow> py_exn + 'b" where
  "then_do r f = (case r of Inl e \<Rightarrow> Inl e | Inr x \<Rightarrow> f x)"

text \<open>A list comprehension whose element expression may raise.\<close>

fun map_raising :: "('a \<Rightarrow> py_exn + 'b) \<Rightarrow> 'a list \<Rightarrow> py_exn + 'b list" where
  "map_raising f [] = Inr []"
| "map_raising f (x # xs) =
     (case f x of
        Inl e \<Rightarrow> Inl e
      | Inr y \<Rightarrow> (case map_raising f xs of Inl e \<Rightarrow> Inl e | Inr ys \<Rightarrow> Inr (y # ys)))"

text \<open>\<^verbatim>\<open>sep.join(parts)\<close>.\<close>

fun join :: "string \<Rightarrow> string list \<Rightarrow> string" where
  "join sep [] = []"
| "join sep [p] = p"
| "join sep (p # q # ps) = p @ sep @ join sep (q # ps)"

section \<open>Configuration constants (config.py)\<close>

definition WEATHER_TOOL_NAME :: string where
  "WEATHER_TOOL_NAME = ''get_weather''"

definition OPEN_METEO_GEO_URL :: string where
  "OPEN_METEO_GEO_URL = ''https://geocoding-api.open-meteo.com/v1/search''"

definition OPEN_METEO_WEATHER_URL :: string where
  "OPEN_METEO_WEATHER_URL = ''https://api.open-meteo.com/v1/forecast''"

definition CLI_ASSISTANT_PROMPT :: string where
  "CLI_ASSISTANT_PROMPT = ''Assistant: ''"

text \<open>\<^verbatim>\<open>CLI_UNEXPECTED_ERROR.format(error=e)\<close>.\<close>

definition CLI_UNEXPECTED_ERROR :: "py_exn \<Rightarrow> string" where
  "CLI_UNEXPECTED_ERROR e = ''Unexpected error: '' @ exn_str e"

section \<open>Data classes (models.py)\<close>

subsection \<open>Messages\<close>

definition ROLE_SYSTEM :: string where "ROLE_SYSTEM = ''system''"
definition ROLE_USER :: string where "ROLE_USER = ''user''"
definition ROLE_ASSISTANT :: string where "ROLE_ASSISTANT = ''assistant''"
definition ROLE_TOOL :: string where "ROLE_TOOL = ''tool''"

text \<open>
  \<^verbatim>\<open>ToolInvocation.to_history_dict\<close> returns a dict with the keys \<^verbatim>\<open>id\<close>, \<^verbatim>\<open>type\<close> and
  \<^verbatim>\<open>function\<close>, the last being \<^verbatim>\<open>InvokedFunction.to_dict()\<close> with the keys \<^verbatim>\<open>name\<close> and
  \<^verbatim>\<open>arguments\<close>. A dict with fixed keys is a record.
\<close>

record function_dict =
  fdict_name :: string
  fdict_arguments :: string

record history_dict =
  hdict_id :: string
  hdict_type :: string
  hdict_function :: function_dict

definition InvokedFunction_to_dict :: "InvokedFunction \<Rightarrow> function_dict" where
  "InvokedFunction_to_dict f = \<lparr>fdict_name = fn_name f, fdict_arguments = fn_arguments f\<rparr>"

definition to_history_dict :: "ToolInvocation \<Rightarrow> history_dict" where
  "to_history_dict t =
     \<lparr>hdict_id = ti_id t, hdict_type = ''function'',
      hdict_function = InvokedFunction_to_dict (ti_function t)\<rparr>"

text \<open>
  \<^verbatim>\<open>Message\<close> is a plain dataclass: constructing one checks nothing. Its fields other than
  \<^verbatim>\<open>role\<close> default to \<^verbatim>\<open>None\<close>.
\<close>

record Message =
  msg_role :: string
  msg_content :: "string option"
  msg_tool_calls :: "history_dict list option"
  msg_tool_call_id :: "string option"
  msg_name :: "string option"

text \<open>The dict \<^verbatim>\<open>Message.to_dict\<close> builds: a key other than \<^verbatim>\<open>role\<close> is present or absent.\<close>

record message_dict =
  mdict_role :: string
  mdict_content :: "string option"
  mdict_tool_calls :: "history_dict list option"
  mdict_tool_call_id :: "string option"
  mdict_name :: "string option"

text \<open>
  \<^verbatim>\<open>
    if self.role == MessageRole.ASSISTANT:
        has_content = self.content is not None and self.content != ""
        has_tool_calls = self.tool_calls is not None and len(self.tool_calls) > 0
        if not has_content and not has_tool_calls:
            raise ValueError("Assistant message must have either content or tool_calls")
  \<close>
  and then one key per field that is not \<^verbatim>\<open>None\<close>.
\<close>

definition has_content :: "Message \<Rightarrow> bool" where
  "has_content m = (msg_content m \<noteq> None \<and> msg_content m \<noteq> Some [])"

definition has_tool_calls :: "Message \<Rightarrow> bool" where
  "has_tool_calls m = (case msg_tool_calls m of None \<Rightarrow> False | Some tcs \<Rightarrow> 0 < length tcs)"

definition Message_to_dict :: "Message \<Rightarrow> py_exn + message_dict" where
  "Message_to_dict m =
     (if msg_role m = ROLE_ASSISTANT \<and> \<not> has_content m \<and> \<not> has_tool_calls m
      then Inl (PyExn ValueError ''Assistant message must have either content or tool_calls'')
      else Inr \<lparr>mdict_role = msg_role m, mdict_content = msg_content m,
                mdict_tool_calls = msg_tool_calls m, mdict_tool_call_id = msg_tool_call_id m,
                mdict_name = msg_name m\<rparr>)"

subsection \<open>Tool responses and parameters\<close>

text \<open>\<^verbatim>\<open>ToolCallResponse.to_dict\<close>: a dict with four keys; \<^verbatim>\<open>role\<close> defaults to \<^verbatim>\<open>"tool"\<close>.\<close>

record tool_response =
  tr_tool_call_id :: string
  tr_role :: string
  tr_name :: string
  tr_content :: string

definition ToolCallResponse :: "string \<Rightarrow> string \<Rightarrow> string \<Rightarrow> tool_response" where
  "ToolCallResponse tool_call_id name content =
     \<lparr>tr_tool_call_id = tool_call_id, tr_role = ROLE_TOOL, tr_name = name, tr_content = content\<rparr>"

record WeatherToolParams =
  wtp_call_id :: string
  wtp_arguments :: pyval

text \<open>\<^verbatim>\<open>WeatherToolResult(call_id, name, content).to_tool_response()\<close>.\<close>

definition to_tool_response :: "string \<Rightarrow> string \<Rightarrow> string \<Rightarrow> tool_response" where
  "to_tool_response call_id name content = ToolCallResponse call_id name content"

text \<open>
  \<^verbatim>\<open>ParsedToolArguments\<close>: \<^verbatim>\<open>cities\<close> defaults to the empty list. The annotation says
  \<^verbatim>\<open>List[str]\<close>, but the parser stores whatever the decoders return, so the field is a
  Python value.
  \<^verbatim>\<open>
    def to_dict(self):
        result = self.raw_arguments.copy()
        if self.cities:
            result["cities"] = self.cities
        return result
  \<close>
\<close>

record ParsedToolArguments =
  pta_cities :: pyval
  pta_raw_arguments :: pyval

definition ParsedToolArguments_to_dict :: "ParsedToolArguments \<Rightarrow> py_exn + pyval" where
  "ParsedToolArguments_to_dict p =
     then_do (py_copy (pta_raw_arguments p)) (\<lambda>result.
       if truthy (pta_cities p) then py_setitem_str result ''cities'' (pta_cities p)
       else Inr result)"

subsection \<open>Locations and weather data\<close>

text \<open>The fields hold what the decoded response held; nothing checks their types.\<close>

record Location =
  loc_latitude :: pyval
  loc_longitude :: pyval
  loc_name :: pyval
  loc_country :: pyval

text \<open>
  \<^verbatim>\<open>Location.__str__\<close> returns \<^verbatim>\<open>f"{self.name}, {self.country}"\<close> when the country is truthy
  and \<^verbatim>\<open>self.name\<close> itself otherwise; \<^verbatim>\<open>str()\<close> raises \<^verbatim>\<open>TypeError\<close> when \<^verbatim>\<open>__str__\<close>
  returns something that is not a string.
\<close>

definition Location_str :: "pylib \<Rightarrow> Location \<Rightarrow> py_exn + string" where
  "Location_str L loc =
     (if truthy (loc_country loc)
      then Inr (py_format L (loc_name loc) @ '', '' @ py_format L (loc_country loc))
      else (case loc_name loc of
              PStr s \<Rightarrow> Inr s
            | v \<Rightarrow> Inl (PyExn TypeError
                        (''__str__ returned non-string (type '' @ type_name v @ '')''))))"

record WeatherData =
  wd_temperature :: pyval
  wd_apparent_temperature :: pyval
  wd_humidity :: pyval
  wd_wind_speed :: pyval
  wd_precipitation :: pyval
  wd_weather_code :: pyval
  wd_temperature_unit :: pyval
  wd_humidity_unit :: pyval
  wd_wind_speed_unit :: pyval
  wd_precipitation_unit :: pyval

definition format_for_llm :: "pylib \<Rightarrow> WeatherData \<Rightarrow> string" where
  "format_for_llm L wd =
     ''Temperature: '' @ py_format L (wd_temperature wd) @ '' '' @ py_format L (wd_temperature_unit wd)
       @ [CHR 0x0A]
     @ ''Feels like: '' @ py_format L (wd_apparent_temperature wd) @ '' ''
       @ py_format L (wd_temperature_unit wd) @ [CHR 0x0A]
     @ ''Humidity: '' @ py_format L (wd_humidity wd) @ '' '' @ py_format L (wd_humidity_unit wd)
       @ [CHR 0x0A]
     @ ''Wind Speed: '' @ py_format L (wd_wind_speed wd) @ '' '' @ py_format L (wd_wind_speed_unit wd)
       @ [CHR 0x0A]
     @ ''Precipitation: '' @ py_format L (wd_precipitation wd) @ '' ''
       @ py_format L (wd_precipitation_unit wd)"

text \<open>
  \<^verbatim>\<open>CityWeatherResult\<close>; \<^verbatim>\<open>location\<close>, \<^verbatim>\<open>weather_data\<close> and \<^verbatim>\<open>error\<close> default to \<^verbatim>\<open>None\<close>.
  \<^verbatim>\<open>
    def to_string(self):
        if self.error:
            return self.error
        if self.location and self.weather_data:
            return f"Weather for {self.location}:\n{self.weather_data.format_for_llm()}"
        return f"Error: Incomplete data for city '{self.city}'."
  \<close>
  An instance of either dataclass is truthy.
\<close>

record CityWeatherResult =
  cwr_city :: pyval
  cwr_location :: "Location option"
  cwr_weather_data :: "WeatherData option"
  cwr_error :: "string option"

definition CityWeatherResult_to_string :: "pylib \<Rightarrow> CityWeatherResult \<Rightarrow> py_exn + string" where
  "CityWeatherResult_to_string L r =
     (if str_truthy (cwr_error r) then Inr (the (cwr_error r))
      else (case (cwr_location r, cwr_weather_data r) of
              (Some loc, Some wd) \<Rightarrow>
                then_do (Location_str L loc) (\<lambda>s.
                  Inr (''Weather for '' @ s @ '':'' @ [CHR 0x0A] @ format_for_llm L wd))
            | _ \<Rightarrow> Inr (''Error: Incomplete data for city '' @ quoted (py_format L (cwr_city r))
                        @ ''.'')))"

subsection \<open>Request parameters\<close>

text \<open>\<^verbatim>\<open>GeocodingParams(name=city_name).to_dict()\<close> and \<^verbatim>\<open>WeatherParams(...).to_dict()\<close>.\<close>

definition GeocodingParams_to_dict :: "pyval \<Rightarrow> (string \<times> pyval) list" where
  "GeocodingParams_to_dict name =
     [(''name'', name), (''count'', PInt 1), (''language'', PStr ''en''), (''format'', PStr ''json'')]"

definition WeatherParams_to_dict :: "pyval \<Rightarrow> pyval \<Rightarrow> (string \<times> pyval) list" where
  "WeatherParams_to_dict latitude longitude =
     [(''latitude'', latitude), (''longitude'', longitude),
      (''current'', PList [PStr ''temperature_2m'', PStr ''relative_humidity_2m'',
                           PStr ''apparent_temperature'', PStr ''precipitation'',
                           PStr ''weather_code'', PStr ''wind_speed_10m'']),
      (''timezone'', PStr ''auto'')]"


section \<open>External Data Client (weather_service.py)\<close>

text \<open>
  What one HTTP exchange of the client gives the program: the three calls
  \<^verbatim>\<open>self.client.get(url, params=...)\<close>, \<^verbatim>\<open>response.raise_for_status()\<close> and
  \<^verbatim>\<open>response.json()\<close> either raise, or end with the decoded body. The service is outside
  the program, so the exchange is a parameter: a function of the URL and the query
  parameters.
\<close>

type_synonym http_client = "string \<Rightarrow> (string \<times> pyval) list \<Rightarrow> py_exn + pyval"

text \<open>
  \<^verbatim>\<open>get_coordinates\<close>. The result is what the coroutine prints and what it returns
  (\<open>Inr None\<close> for Python's \<^verbatim>\<open>None\<close>) or raises.
  \<^verbatim>\<open>
        try:
            response = await self.client.get(OPEN_METEO_GEO_URL, params=params.to_dict())
            response.raise_for_status()
            data = response.json()
            if not data.get("results"):
                return None
            location_data = data["results"][0]
            return Location(
                latitude=location_data["latitude"],
                longitude=location_data["longitude"],
                name=location_data["name"],
                country=location_data.get("country", ""),
            )
        except httpx.TimeoutException as e:
            print(f"\n[System Error] Geocoding API timeout: {e}")
            return None
        except httpx.HTTPError as e:
            print(f"\n[System Error] Geocoding API failed: {e}")
            return None
  \<close>
\<close>

definition location_of_body :: "pyval \<Rightarrow> py_exn + Location option" where
  "location_of_body data =
     then_do (py_get data ''results'' PNone) (\<lambda>results.
       if \<not> truthy results then Inr None
       else
         then_do (py_getitem_str data ''results'') (\<lambda>rs.
         then_do (py_getitem_0 rs) (\<lambda>location_data.
         then_do (py_getitem_str location_data ''latitude'') (\<lambda>latitude.
         then_do (py_getitem_str location_data ''longitude'') (\<lambda>longitude.
         then_do (py_getitem_str location_data ''name'') (\<lambda>name.
         then_do (py_get location_data ''country'' (PStr [])) (\<lambda>country.
           Inr (Some \<lparr>loc_latitude = latitude, loc_longitude = longitude,
                      loc_name = name, loc_country = country\<rparr>))))))))"

definition print_line :: "string \<Rightarrow> string" where
  "print_line s = s @ [CHR 0x0A]"

definition get_coordinates :: "http_client \<Rightarrow> pyval \<Rightarrow> string \<times> (py_exn + Location option)" where
  "get_coordinates client city_name =
     (case then_do (client OPEN_METEO_GEO_URL (GeocodingParams_to_dict city_name)) location_of_body of
        Inr r \<Rightarrow> ([], Inr r)
      | Inl e \<Rightarrow>
          if caught e [HttpxTimeoutException]
          then (print_line (CHR 0x0A # ''[System Error] Geocoding API timeout: '' @ exn_str e), Inr None)
          else if caught e [HttpxHTTPError]
          then (print_line (CHR 0x0A # ''[System Error] Geocoding API failed: '' @ exn_str e), Inr None)
          else ([], Inl e))"

text \<open>
  \<^verbatim>\<open>get_current_weather\<close>: a value missing from the body gets its default; a timeout or
  HTTP error is raised again as \<^verbatim>\<open>ValueError\<close>. The default unit of the temperature is the
  literal of the source file, whose bytes are \<open>C3 82 C2 B0 43\<close>.
\<close>

definition float_zero :: pyval where
  "float_zero = PFloat (FDec 0 0)"

definition default_temperature_unit :: pyval where
  "default_temperature_unit = PStr [CHR 0xC3, CHR 0x82, CHR 0xC2, CHR 0xB0, CHR ''C'']"

definition weather_of_body :: "pyval \<Rightarrow> py_exn + WeatherData" where
  "weather_of_body data =
     then_do (py_get data ''current'' (PDict [])) (\<lambda>current.
     then_do (py_get data ''current_units'' (PDict [])) (\<lambda>units.
     then_do (py_get current ''temperature_2m'' float_zero) (\<lambda>temperature.
     then_do (py_get current ''apparent_temperature'' float_zero) (\<lambda>apparent_temperature.
     then_do (py_get current ''relative_humidity_2m'' float_zero) (\<lambda>humidity.
     then_do (py_get current ''wind_speed_10m'' float_zero) (\<lambda>wind_speed.
     then_do (py_get current ''precipitation'' float_zero) (\<lambda>precipitation.
     then_do (py_get current ''weather_code'' PNone) (\<lambda>weather_code.
     then_do (py_get units ''temperature_2m'' default_temperature_unit) (\<lambda>temperature_unit.
     then_do (py_get units ''relative_humidity_2m'' (PStr ''%'')) (\<lambda>humidity_unit.
     then_do (py_get units ''wind_speed_10m'' (PStr ''km/h'')) (\<lambda>wind_speed_unit.
     then_do (py_get units ''precipitation'' (PStr ''mm'')) (\<lambda>precipitation_unit.
       Inr \<lparr>wd_temperature = temperature, wd_apparent_temperature = apparent_temperature,
            wd_humidity = humidity, wd_wind_speed = wind_speed,
            wd_precipitation = precipitation, wd_weather_code = weather_code,
            wd_temperature_unit = temperature_unit, wd_humidity_unit = humidity_unit,
            wd_wind_speed_unit = wind_speed_unit,
            wd_precipitation_unit = precipitation_unit\<rparr>))))))))))))"

definition get_current_weather :: "http_client \<Rightarrow> pyval \<Rightarrow> pyval \<Rightarrow> py_exn + WeatherData" where
  "get_current_weather client latitude longitude =
     (case then_do (client OPEN_METEO_WEATHER_URL (WeatherParams_to_dict latitude longitude))
             weather_of_body of
        Inr wd \<Rightarrow> Inr wd
      | Inl e \<Rightarrow>
          if caught e [HttpxTimeoutException]
          then Inl (PyExn ValueError (''Timeout while fetching weather data: '' @ exn_str e))
          else if caught e [HttpxHTTPError]
          then Inl (PyExn ValueError (''Error fetching weather data: '' @ exn_str e))
          else Inl e)"


section \<open>Tool Argument Parser (assistant.py)\<close>

text \<open>
  \<^verbatim>\<open>
        try:
            arguments = json.loads(arguments_str)
        except (json.JSONDecodeError, AttributeError):
            arguments = {}
  \<close>
  An exception of another class is not caught here.
\<close>

definition decode_arguments :: "pylib \<Rightarrow> string \<Rightarrow> py_exn + pyval" where
  "decode_arguments L arguments_str =
     (case lib_json_loads L arguments_str of
        Inr v \<Rightarrow> Inr v
      | Inl e \<Rightarrow> if caught e [JSONDecodeError, AttributeError] then Inr (PDict []) else Inl e)"

text \<open>
  The tests \<^verbatim>\<open>"cities" in arguments and isinstance(arguments["cities"], ...)\<close>: the
  membership test first and, when it holds, the subscript. Either can raise, on a decoded
  value that is not a dict. \<open>Inr None\<close>: the membership test is false.
\<close>

definition cities_entry :: "pyval \<Rightarrow> py_exn + pyval option" where
  "cities_entry arguments =
     then_do (py_contains ''cities'' arguments) (\<lambda>present.
       if present then then_do (py_getitem_str arguments ''cities'') (\<lambda>v. Inr (Some v))
       else Inr None)"

text \<open>
  The branch for a \<^verbatim>\<open>cities\<close> value that is a string:
  \<^verbatim>\<open>
            try:
                parsed_args.cities = json.loads(arguments["cities"])
            except (json.JSONDecodeError, ValueError):
                try:
                    parsed = ast.literal_eval(arguments["cities"])
                    if isinstance(parsed, list):
                        parsed_args.cities = parsed
                    else:
                        parsed_args.cities = [parsed] if parsed else []
                except (ValueError, SyntaxError):
                    parsed_args.cities = [arguments["cities"]]
  \<close>
\<close>

definition cities_of_string :: "pylib \<Rightarrow> string \<Rightarrow> py_exn + pyval" where
  "cities_of_string L s =
     (case lib_json_loads L s of
        Inr v \<Rightarrow> Inr v
      | Inl e \<Rightarrow>
          if caught e [JSONDecodeError, ValueError] then
            (case lib_literal_eval L s of
               Inr parsed \<Rightarrow>
                 if is_list parsed then Inr parsed
                 else Inr (if truthy parsed then PList [parsed] else PList [])
             | Inl e' \<Rightarrow>
                 if caught e' [ValueError, SyntaxError] then Inr (PList [PStr s]) else Inl e')
          else Inl e)"

text \<open>
  \<^verbatim>\<open>_parse_tool_arguments\<close>. The \<^verbatim>\<open>if\<close> and the \<^verbatim>\<open>elif\<close> evaluate the same membership
  test and subscript; both are pure, so they are evaluated once here.
\<close>

definition parse_tool_arguments :: "pylib \<Rightarrow> string \<Rightarrow> py_exn + ParsedToolArguments" where
  "parse_tool_arguments L arguments_str =
     then_do (decode_arguments L arguments_str) (\<lambda>arguments.
       let parsed_args = \<lparr>pta_cities = PList [], pta_raw_arguments = arguments\<rparr> in
       then_do (cities_entry arguments) (\<lambda>entry.
         case entry of
           None \<Rightarrow> Inr parsed_args
         | Some (PStr s) \<Rightarrow>
             then_do (cities_of_string L s) (\<lambda>c. Inr (parsed_args\<lparr>pta_cities := c\<rparr>))
         | Some v \<Rightarrow>
             if is_list v then Inr (parsed_args\<lparr>pta_cities := v\<rparr>) else Inr parsed_args))"

section \<open>Tool Executor (assistant.py)\<close>

text \<open>
  \<^verbatim>\<open>
        cities = arguments.get("cities", [])
        if not isinstance(cities, list):
            cities = [cities] if cities else []
        return cities
  \<close>
\<close>

definition validate_and_normalize_cities :: "pyval \<Rightarrow> py_exn + pyval list" where
  "validate_and_normalize_cities arguments =
     then_do (py_get arguments ''cities'' (PList [])) (\<lambda>cities.
       case cities of
         PList xs \<Rightarrow> Inr xs
       | v \<Rightarrow> Inr (if truthy v then [v] else []))"

definition create_error_response :: "string \<Rightarrow> string \<Rightarrow> tool_response" where
  "create_error_response call_id error_message =
     to_tool_response call_id WEATHER_TOOL_NAME error_message"

text \<open>
  One per-city pipeline, \<^verbatim>\<open>_get_weather_for_city\<close>. Beside its result it yields a log:
  the HTTP requests it made, in order, and what it printed.
  \<^verbatim>\<open>
        print(f"[Calling {WEATHER_TOOL_NAME} for {city}...]")
        location = await self.weather_service.get_coordinates(city)
        if not location:
            return CityWeatherResult(
                city=city, error=f"Error: Could not find coordinates for city '{city}'.")
        try:
            weather_data = await self.weather_service.get_current_weather(
                location.latitude, location.longitude)
            return CityWeatherResult(city=city, location=location, weather_data=weather_data)
        except Exception as e:
            return CityWeatherResult(
                city=city, error=f"Error fetching weather data for {city}: {str(e)}")
  \<close>
\<close>

type_synonym http_request = "string \<times> (string \<times> pyval) list"

record task_log =
  tl_requests :: "http_request list"
  tl_printed :: string

definition error_result :: "pyval \<Rightarrow> string \<Rightarrow> CityWeatherResult" where
  "error_result city msg =
     \<lparr>cwr_city = city, cwr_location = None, cwr_weather_data = None, cwr_error = Some msg\<rparr>"

definition get_weather_for_city ::
    "pylib \<Rightarrow> http_client \<Rightarrow> pyval \<Rightarrow> task_log \<times> (py_exn + CityWeatherResult)" where
  "get_weather_for_city L client city =
     (let calling = print_line (''[Calling '' @ WEATHER_TOOL_NAME @ '' for '' @ py_format L city @ ''...]'');
          geo_request = (OPEN_METEO_GEO_URL, GeocodingParams_to_dict city);
          (geo_printed, location) = get_coordinates client city
      in case location of
           Inl e \<Rightarrow> (\<lparr>tl_requests = [geo_request], tl_printed = calling @ geo_printed\<rparr>, Inl e)
         | Inr None \<Rightarrow>
             (\<lparr>tl_requests = [geo_request], tl_printed = calling @ geo_printed\<rparr>,
              Inr (error_result city
                    (''Error: Could not find coordinates for city '' @ quoted (py_format L city) @ ''.'')))
         | Inr (Some loc) \<Rightarrow>
             (\<lparr>tl_requests =
                  [geo_request,
                   (OPEN_METEO_WEATHER_URL, WeatherParams_to_dict (loc_latitude loc) (loc_longitude loc))],
               tl_printed = calling @ geo_printed\<rparr>,
              case get_current_weather client (loc_latitude loc) (loc_longitude loc) of
                Inr weather_data \<Rightarrow>
                  Inr \<lparr>cwr_city = city, cwr_location = Some loc,
                       cwr_weather_data = Some weather_data, cwr_error = None\<rparr>
              | Inl e \<Rightarrow>
                  Inr (error_result city
                        (''Error fetching weather data for '' @ py_format L city @ '': '' @ exn_str e))))"

text \<open>
  \<^verbatim>\<open>_process_city_results\<close>: the loop \<^verbatim>\<open>for i, result in enumerate(results)\<close>, from index
  \<open>i\<close> on. \<^verbatim>\<open>cities[i]\<close> raises \<^verbatim>\<open>IndexError\<close> past the end of \<^verbatim>\<open>cities\<close>.
  \<^verbatim>\<open>
            if isinstance(result, Exception):
                processed_results.append(CityWeatherResult(
                    city=cities[i],
                    error=f"Error processing city '{cities[i]}': {str(result)}"))
            else:
                processed_results.append(result)
  \<close>
\<close>

fun process_city_results_from ::
    "pylib \<Rightarrow> nat \<Rightarrow> pyval list \<Rightarrow> (py_exn + CityWeatherResult) list
       \<Rightarrow> py_exn + CityWeatherResult list" where
  "process_city_results_from L i cities [] = Inr []"
| "process_city_results_from L i cities (Inr result # results) =
     then_do (process_city_results_from L (Suc i) cities results) (\<lambda>rest. Inr (result # rest))"
| "process_city_results_from L i cities (Inl e # results) =
     (if i < length cities then
        then_do (process_city_results_from L (Suc i) cities results) (\<lambda>rest.
          Inr (error_result (cities ! i)
                 (''Error processing city '' @ quoted (py_format L (cities ! i)) @ '': '' @ exn_str e)
               # rest))
      else Inl (PyExn IndexError ''list index out of range''))"

definition process_city_results ::
    "pylib \<Rightarrow> pyval list \<Rightarrow> (py_exn + CityWeatherResult) list \<Rightarrow> py_exn + CityWeatherResult list" where
  "process_city_results L cities results = process_city_results_from L 0 cities results"

text \<open>
  \<^verbatim>\<open>_fetch_weather_for_cities\<close>. \<^verbatim>\<open>asyncio.gather\<close> with \<^verbatim>\<open>return_exceptions=True\<close>
  returns, once every task has finished, the list of their results in the order of the
  tasks, an exception a task raised standing in for its result. The scheduling of the
  tasks is not modelled: task \<open>i\<close> has its own exchanges \<open>clients i\<close> with the service,
  and the logs of the tasks are kept apart, one per task.
\<close>

definition fetch_weather_for_cities ::
    "pylib \<Rightarrow> (nat \<Rightarrow> http_client) \<Rightarrow> pyval list
       \<Rightarrow> task_log list \<times> (py_exn + CityWeatherResult list)" where
  "fetch_weather_for_cities L clients cities =
     (let city_results = map (\<lambda>(i, city). get_weather_for_city L (clients i) city)
                             (enumerate 0 cities)
      in (map fst city_results, process_city_results L cities (map snd city_results)))"

text \<open>\<^verbatim>\<open>"\n\n".join([result.to_string() for result in results])\<close>.\<close>

definition format_weather_content :: "pylib \<Rightarrow> CityWeatherResult list \<Rightarrow> py_exn + string" where
  "format_weather_content L results =
     then_do (map_raising (CityWeatherResult_to_string L) results) (\<lambda>parts.
       Inr (join [CHR 0x0A, CHR 0x0A] parts))"

text \<open>
  \<^verbatim>\<open>
        cities = self._validate_and_normalize_cities(params.arguments)
        if not cities:
            return self._create_error_response(params.call_id, "Error: No cities provided.")
        city_results = await self._fetch_weather_for_cities(cities)
        content = self._format_weather_content(city_results)
        result = WeatherToolResult(call_id=params.call_id, name=WEATHER_TOOL_NAME, content=content)
        return result.to_tool_response()
  \<close>
\<close>

definition run_weather_tool ::
    "pylib \<Rightarrow> (nat \<Rightarrow> http_client) \<Rightarrow> WeatherToolParams
       \<Rightarrow> task_log list \<times> (py_exn + tool_response)" where
  "run_weather_tool L clients params =
     (case validate_and_normalize_cities (wtp_arguments params) of
        Inl e \<Rightarrow> ([], Inl e)
      | Inr cities \<Rightarrow>
          if cities = [] then
            ([], Inr (create_error_response (wtp_call_id params) ''Error: No cities provided.''))
          else
            (let (logs, city_results) = fetch_weather_for_cities L clients cities
             in (logs,
                 then_do city_results (\<lambda>rs.
                 then_do (format_weather_content L rs) (\<lambda>content.
                   Inr (to_tool_response (wtp_call_id params) WEATHER_TOOL_NAME content))))))"

text \<open>
  \<^verbatim>\<open>
        func_name = tool_call.function.name
        parsed_args = self._parse_tool_arguments(tool_call.function.arguments)
        if func_name == WEATHER_TOOL_NAME:
            params = WeatherToolParams(call_id=tool_call.id, arguments=parsed_args.to_dict())
            return await self._run_weather_tool(params)
        return ToolCallResponse(
            tool_call_id=tool_call.id, name=func_name,
            content="Error: Unknown function requested.").to_dict()
  \<close>
\<close>

definition execute_tool_call ::
    "pylib \<Rightarrow> (nat \<Rightarrow> http_client) \<Rightarrow> ToolInvocation
       \<Rightarrow> task_log list \<times> (py_exn + tool_response)" where
  "execute_tool_call L clients tool_call =
     (let func_name = fn_name (ti_function tool_call) in
      case parse_tool_arguments L (fn_arguments (ti_function tool_call)) of
        Inl e \<Rightarrow> ([], Inl e)
      | Inr parsed_args \<Rightarrow>
          if func_name = WEATHER_TOOL_NAME then
            (case ParsedToolArguments_to_dict parsed_args of
               Inl e \<Rightarrow> ([], Inl e)
             | Inr arguments \<Rightarrow>
                 run_weather_tool L clients
                   \<lparr>wtp_call_id = ti_id tool_call, wtp_arguments = arguments\<rparr>)
          else
            ([], Inr (ToolCallResponse (ti_id tool_call) func_name
                        ''Error: Unknown function requested.'')))"

text \<open>
  What \<^verbatim>\<open>_process_city_results\<close> makes of one gathered result: the result itself, or an
  error entry for the city when the task raised.
\<close>

definition gathered :: "pylib \<Rightarrow> pyval \<Rightarrow> py_exn + CityWeatherResult \<Rightarrow> CityWeatherResult" where
  "gathered L city r =
     (case r of
        Inr x \<Rightarrow> x
      | Inl e \<Rightarrow> error_result city
                  (''Error processing city '' @ quoted (py_format L city) @ '': '' @ exn_str e))"

subsection \<open>What the specification says one city's entry is\<close>

text \<open>
  The outcome of one per-city pipeline as the specification describes it, from the city
  and that city's own exchanges alone: an error entry when the resolution raises, finds
  nothing or fails in transport, an error entry when the weather fetch fails, and the
  location with its weather otherwise.
\<close>

definition city_entry :: "pylib \<Rightarrow> http_client \<Rightarrow> pyval \<Rightarrow> CityWeatherResult" where
  "city_entry L client city =
     (case snd (get_coordinates client city) of
        Inl e \<Rightarrow>
          error_result city
            (''Error processing city '' @ quoted (py_format L city) @ '': '' @ exn_str e)
      | Inr None \<Rightarrow>
          error_result city
            (''Error: Could not find coordinates for city '' @ quoted (py_format L city) @ ''.'')
      | Inr (Some loc) \<Rightarrow>
          (case get_current_weather client (loc_latitude loc) (loc_longitude loc) of
             Inl e \<Rightarrow>
               error_result city
                 (''Error fetching weather data for '' @ py_format L city @ '': '' @ exn_str e)
           | Inr weather_data \<Rightarrow>
               \<lparr>cwr_city = city, cwr_location = Some loc,
                cwr_weather_data = Some weather_data, cwr_error = None\<rparr>))"


section \<open>Interaction Loop (assistant.py)\<close>

text \<open>
  A chunk of the stream as \<^verbatim>\<open>_process_stream\<close> reads it: \<^verbatim>\<open>chunk.choices[0].delta\<close> with
  its \<^verbatim>\<open>content\<close> and \<^verbatim>\<open>tool_calls\<close>, each possibly \<^verbatim>\<open>None\<close>.
\<close>

record stream_delta =
  sd_content :: "string option"
  sd_tool_calls :: "tool_call_delta list option"

record stream_chunk =
  sc_choices :: "stream_delta list"

text \<open>
  What \<^verbatim>\<open>self.client.chat.completions.create(...)\<close> does: it raises, or it returns a stream
  that yields chunks and then ends, normally or with an exception.
\<close>

datatype api_outcome =
    ApiRaises py_exn
  | ApiStream "stream_chunk list" "py_exn option"

text \<open>
  Everything outside the program: the library functions, the chat service (its outcome
  for the \<open>n\<close>-th request of the session, given the messages sent), and the exchanges of
  the data client (for the tool call that follows the \<open>n\<close>-th request, per city task).
\<close>

record world =
  w_lib :: pylib
  w_chat :: "nat \<Rightarrow> message_dict list \<Rightarrow> api_outcome"
  w_clients :: "nat \<Rightarrow> nat \<Rightarrow> http_client"

text \<open>
  The state of a \<^verbatim>\<open>WeatherAssistant\<close>: the transcript, and what the model records of its
  effects: the text the loop itself printed, the logs of the city tasks (which run
  concurrently, so what they print is not placed into \<open>stdout\<close>), and the number of chat
  requests made.
\<close>

record assistant_state =
  conversation_history :: "Message list"
  stdout :: string
  task_logs :: "task_log list"
  requests_made :: nat

definition Message_of :: "string \<Rightarrow> string option \<Rightarrow> Message" where
  "Message_of role content =
     \<lparr>msg_role = role, msg_content = content, msg_tool_calls = None,
      msg_tool_call_id = None, msg_name = None\<rparr>"

text \<open>
  \<^verbatim>\<open>
        try:
            return await self.client.chat.completions.create(
                model=MODEL_NAME,
                messages=[msg.to_dict() for msg in self.conversation_history],
                tools=self.tools, tool_choice="auto", stream=True)
        except APITimeoutError as e:
            print(f"\n[System Error] API request timeout: {e}")
            return None
  \<close>
  The messages are serialized before the request is made; \<^verbatim>\<open>to_dict\<close> may raise.
\<close>

definition create_api_stream ::
    "world \<Rightarrow> assistant_state
       \<Rightarrow> assistant_state \<times> (py_exn + (stream_chunk list \<times> py_exn option) option)" where
  "create_api_stream w st =
     (case map_raising Message_to_dict (conversation_history st) of
        Inl e \<Rightarrow> (st, Inl e)
      | Inr messages \<Rightarrow>
          (let st1 = st\<lparr>requests_made := Suc (requests_made st)\<rparr> in
           case w_chat w (requests_made st) messages of
             ApiStream chunks err \<Rightarrow> (st1, Inr (Some (chunks, err)))
           | ApiRaises e \<Rightarrow>
               if caught e [APITimeoutError] then
                 (st1\<lparr>stdout := stdout st1
                         @ print_line (CHR 0x0A # ''[System Error] API request timeout: '' @ exn_str e)\<rparr>,
                  Inr None)
               else (st1, Inl e)))"

text \<open>
  The body of \<^verbatim>\<open>async for chunk in stream\<close>, on the text printed so far, the collected
  content and the buffer:
  \<^verbatim>\<open>
            delta = chunk.choices[0].delta
            if delta.content:
                content_chunk = delta.content
                print(content_chunk, end="", flush=True)
                collected_content += content_chunk
            if delta.tool_calls:
                self._accumulate_tool_call_chunk(delta.tool_calls, tool_calls_buffer)
  \<close>
\<close>

definition process_chunk ::
    "stream_chunk \<Rightarrow> string \<times> string \<times> tool_calls_buffer
       \<Rightarrow> py_exn + (string \<times> string \<times> tool_calls_buffer)" where
  "process_chunk chunk acc =
     (case sc_choices chunk of
        [] \<Rightarrow> Inl (PyExn IndexError ''list index out of range'')
      | delta # _ \<Rightarrow>
          (let (out, collected_content, buf) = acc;
               (out1, content1) =
                 (if str_truthy (sd_content delta)
                  then (out @ the (sd_content delta), collected_content @ the (sd_content delta))
                  else (out, collected_content));
               buf1 = (case sd_tool_calls delta of
                         None \<Rightarrow> buf
                       | Some tcs \<Rightarrow> if tcs \<noteq> [] then accumulate_tool_call_chunk tcs buf else buf)
           in Inr (out1, content1, buf1)))"

fun process_chunks ::
    "stream_chunk list \<Rightarrow> string \<times> string \<times> tool_calls_buffer
       \<Rightarrow> string \<times> (py_exn + (string \<times> tool_calls_buffer))" where
  "process_chunks [] (out, content, buf) = (out, Inr (content, buf))"
| "process_chunks (chunk # chunks) (out, content, buf) =
     (case process_chunk chunk (out, content, buf) of
        Inl e \<Rightarrow> (out, Inl e)
      | Inr acc \<Rightarrow> process_chunks chunks acc)"

text \<open>
  \<^verbatim>\<open>_process_stream\<close>: prints the prompt, drains the stream, prints a newline. An
  exception of the stream or of the loop body leaves the function with what was printed.
\<close>

definition process_stream ::
    "stream_chunk list \<times> py_exn option \<Rightarrow> string
       \<Rightarrow> string \<times> (py_exn + (string \<times> tool_calls_buffer))" where
  "process_stream stream out =
     (case process_chunks (fst stream) (out @ CLI_ASSISTANT_PROMPT, [], []) of
        (out1, Inl e) \<Rightarrow> (out1, Inl e)
      | (out1, Inr r) \<Rightarrow>
          (case snd stream of
             Some e \<Rightarrow> (out1, Inl e)
           | None \<Rightarrow> (out1 @ [CHR 0x0A], Inr r)))"

text \<open>
  \<^verbatim>\<open>
        if len(tool_calls) == 0:
            return
        # Expect only 1 tool call which includes all city names
        tool_call = tool_calls[0]
        tool_output_dict = await self._execute_tool_call(tool_call)
        tool_msg = Message(
            role=tool_output_dict["role"],
            tool_call_id=tool_output_dict.get("tool_call_id"),
            name=tool_output_dict.get("name"),
            content=tool_output_dict.get("content", ""))
        self.conversation_history.append(tool_msg)
  \<close>
\<close>

definition tool_message :: "tool_response \<Rightarrow> Message" where
  "tool_message d =
     \<lparr>msg_role = tr_role d, msg_content = Some (tr_content d), msg_tool_calls = None,
      msg_tool_call_id = Some (tr_tool_call_id d), msg_name = Some (tr_name d)\<rparr>"

definition handle_tool_calls ::
    "world \<Rightarrow> ToolInvocation list \<Rightarrow> assistant_state \<Rightarrow> assistant_state \<times> (py_exn + unit)" where
  "handle_tool_calls w tool_calls st =
     (case tool_calls of
        [] \<Rightarrow> (st, Inr ())
      | tool_call # _ \<Rightarrow>
          (let (logs, r) = execute_tool_call (w_lib w) (w_clients w (requests_made st)) tool_call;
               st1 = st\<lparr>task_logs := task_logs st @ logs\<rparr>
           in case r of
                Inl e \<Rightarrow> (st1, Inl e)
              | Inr tool_output_dict \<Rightarrow>
                  (st1\<lparr>conversation_history :=
                         conversation_history st1 @ [tool_message tool_output_dict]\<rparr>,
                   Inr ())))"

text \<open>
  \<^verbatim>\<open>
        if tool_calls_buffer:
            tool_calls_list = self._convert_tool_calls_buffer(tool_calls_buffer)
            assistant_msg = Message(
                role=MessageRole.ASSISTANT,
                content=content if content else None,
                tool_calls=[tc.to_history_dict() for tc in tool_calls_list])
            self.conversation_history.append(assistant_msg)
            await self._handle_tool_calls(tool_calls_list)
            return True
        else:
            assistant_msg = Message(
                role=MessageRole.ASSISTANT, content=content if content else None)
            self.conversation_history.append(assistant_msg)
            return False
  \<close>
\<close>

definition handle_stream_response ::
    "world \<Rightarrow> string \<Rightarrow> tool_calls_buffer \<Rightarrow> assistant_state
       \<Rightarrow> assistant_state \<times> (py_exn + bool)" where
  "handle_stream_response w content buf st =
     (let content_or_none = (if content \<noteq> [] then Some content else None) in
      if buf \<noteq> [] then
        (let tool_calls_list = convert_tool_calls_buffer buf;
             assistant_msg = (Message_of ROLE_ASSISTANT content_or_none)
                               \<lparr>msg_tool_calls := Some (map to_history_dict tool_calls_list)\<rparr>;
             st1 = st\<lparr>conversation_history := conversation_history st @ [assistant_msg]\<rparr>;
             (st2, r) = handle_tool_calls w tool_calls_list st1
         in (st2, then_do r (\<lambda>_. Inr True)))
      else
        (st\<lparr>conversation_history :=
              conversation_history st @ [Message_of ROLE_ASSISTANT content_or_none]\<rparr>,
         Inr False))"

text \<open>
  One iteration of \<^verbatim>\<open>while True\<close> inside the \<^verbatim>\<open>try\<close>: the new state and either the exception
  that reaches \<^verbatim>\<open>except Exception\<close> or whether the loop goes on.
  \<^verbatim>\<open>
                stream = await self._create_api_stream()
                if stream is None:
                    break
                content, tool_calls_buffer = await self._process_stream(stream)
                should_continue = await self._handle_stream_response(content, tool_calls_buffer)
                if not should_continue:
                    break
  \<close>
\<close>

definition turn :: "world \<Rightarrow> assistant_state \<Rightarrow> assistant_state \<times> (py_exn + bool)" where
  "turn w st =
     (case create_api_stream w st of
        (st1, Inl e) \<Rightarrow> (st1, Inl e)
      | (st1, Inr None) \<Rightarrow> (st1, Inr False)
      | (st1, Inr (Some stream)) \<Rightarrow>
          (case process_stream stream (stdout st1) of
             (out, Inl e) \<Rightarrow> (st1\<lparr>stdout := out\<rparr>, Inl e)
           | (out, Inr (content, buf)) \<Rightarrow>
               handle_stream_response w content buf (st1\<lparr>stdout := out\<rparr>)))"

text \<open>
  \<^verbatim>\<open>_run_interaction_loop\<close>. The loop goes on as long as the model keeps asking for tools,
  so it need not end: \<open>None\<close> is the loop that never returns.
  \<^verbatim>\<open>
            except Exception as e:
                print(CLI_UNEXPECTED_ERROR.format(error=e))
                break
  \<close>
\<close>

partial_function (option) run_interaction_loop :: "world \<Rightarrow> assistant_state \<Rightarrow> assistant_state option" where
  "run_interaction_loop w st =
     (case snd (turn w st) of
        Inl e \<Rightarrow>
          Some ((fst (turn w st))
                  \<lparr>stdout := stdout (fst (turn w st)) @ print_line (CLI_UNEXPECTED_ERROR e)\<rparr>)
      | Inr should_continue \<Rightarrow>
          if should_continue then run_interaction_loop w (fst (turn w st))
          else Some (fst (turn w st)))"

text \<open>
  \<^verbatim>\<open>
        self.conversation_history.append(Message(role=MessageRole.USER, content=user_input))
        await self._run_interaction_loop()
  \<close>
\<close>

definition process_message :: "world \<Rightarrow> string \<Rightarrow> assistant_state \<Rightarrow> assistant_state option" where
  "process_message w user_input st =
     run_interaction_loop w
       (st\<lparr>conversation_history :=
             conversation_history st @ [Message_of ROLE_USER (Some user_input)]\<rparr>)"


text \<open>
  The tool-call fragments a chunk carries. The buffer \<^verbatim>\<open>_process_stream\<close> returns is the
  assembler run over them, chunk by chunk (lemma \<open>process_stream_buffer\<close>).
\<close>

definition chunk_fragments :: "stream_chunk \<Rightarrow> tool_call_delta list" where
  "chunk_fragments chunk =
     (case sc_choices chunk of
        [] \<Rightarrow> []
      | delta # _ \<Rightarrow> (case sd_tool_calls delta of None \<Rightarrow> [] | Some tcs \<Rightarrow> tcs))"


section \<open>Evaluation rules\<close>

text \<open>The definitions a closed evaluation of the decoder and of the parser unfolds.\<close>

lemmas json_eval = json_loads_def parse_tokens_def jstep_def is_ws_def is_digit_def is_numchar_def
  number_of_lexeme_def split_sign_def split_fraction_def split_exponent_def digits_val_def

lemmas parse_eval = parse_tool_arguments_def decode_arguments_def cities_entry_def
  cities_of_string_def then_do_def caught_def exn_subclass_def

section \<open>Properties of the Tool Call Assembler\<close>

lemma piece_truthy: "(if str_truthy x then s @ the x else s) = s @ piece x"
  by (cases x) (auto simp: str_truthy_def piece_def)

lemma extend_Nil: "extend_invocation t [] = t"
  by (simp add: extend_invocation_def concatenated_def)

lemma extend_new: "extend_invocation new_ToolInvocation fs = concatenated fs"
  by (simp add: extend_invocation_def concatenated_def new_ToolInvocation_def new_InvokedFunction_def)

lemma extend_Cons: "extend_invocation (extend_invocation t [f]) fs = extend_invocation t (f # fs)"
  by (simp add: extend_invocation_def concatenated_def)

lemma accumulate_fragment_keys:
  "fst ` set (accumulate_fragment tc buf) = insert (tcd_index tc) (fst ` set buf)"
  by (auto simp: accumulate_fragment_def Let_def dom_map_entry dom_update map_of_eq_None_iff)

lemma accumulate_fragment_distinct:
  "distinct (map fst buf) \<Longrightarrow> distinct (map fst (accumulate_fragment tc buf))"
  by (simp add: accumulate_fragment_def Let_def distinct_map_entry distinct_update)

lemma accumulate_fragment_lookup:
  "map_of (accumulate_fragment tc buf) =
     (map_of buf)(tcd_index tc \<mapsto>
        extend_invocation (case map_of buf (tcd_index tc) of None \<Rightarrow> new_ToolInvocation | Some t \<Rightarrow> t) [tc])"
proof -
  let ?i = "tcd_index tc"
  let ?t0 = "case map_of buf ?i of None \<Rightarrow> new_ToolInvocation | Some t \<Rightarrow> t"
  define b0 where "b0 = (if map_of buf ?i = None then AList.update ?i new_ToolInvocation buf else buf)"
  have b0: "map_of b0 = (map_of buf)(?i \<mapsto> ?t0)"
    by (auto simp: b0_def update_conv' split: option.splits)
  have step: "map_of (AList.map_entry ?i g b) = m(?i \<mapsto> g t)"
    if "map_of b = m(?i \<mapsto> t)" for g b m t
    using that by (auto simp: map_of_map_entry)
  define t1 where "t1 = (if str_truthy (tcd_id tc) then ?t0\<lparr>ti_id := ti_id ?t0 @ the (tcd_id tc)\<rparr> else ?t0)"
  define b1 where "b1 = (if str_truthy (tcd_id tc)
               then AList.map_entry ?i (\<lambda>t. t\<lparr>ti_id := ti_id t @ the (tcd_id tc)\<rparr>) b0
               else b0)"
  have b1: "map_of b1 = (map_of buf)(?i \<mapsto> t1)"
    unfolding b1_def t1_def using b0 step[OF b0] by simp
  define t2 where "t2 = (if str_truthy (fd_name (tcd_function tc))
      then t1\<lparr>ti_function := (ti_function t1)
                \<lparr>fn_name := fn_name (ti_function t1) @ the (fd_name (tcd_function tc))\<rparr>\<rparr> else t1)"
  define b2 where "b2 = (if str_truthy (fd_name (tcd_function tc))
               then AList.map_entry ?i
                      (\<lambda>t. t\<lparr>ti_function := (ti_function t)
                             \<lparr>fn_name := fn_name (ti_function t) @ the (fd_name (tcd_function tc))\<rparr>\<rparr>) b1
               else b1)"
  have b2: "map_of b2 = (map_of buf)(?i \<mapsto> t2)"
    unfolding b2_def t2_def using b1 step[OF b1] by simp
  define t3 where "t3 = (if str_truthy (fd_arguments (tcd_function tc))
      then t2\<lparr>ti_function := (ti_function t2)
                \<lparr>fn_arguments := fn_arguments (ti_function t2)
                                  @ the (fd_arguments (tcd_function tc))\<rparr>\<rparr> else t2)"
  define b3 where "b3 = (if str_truthy (fd_arguments (tcd_function tc))
               then AList.map_entry ?i
                      (\<lambda>t. t\<lparr>ti_function := (ti_function t)
                             \<lparr>fn_arguments := fn_arguments (ti_function t)
                                               @ the (fd_arguments (tcd_function tc))\<rparr>\<rparr>) b2
               else b2)"
  have b3: "map_of b3 = (map_of buf)(?i \<mapsto> t3)"
    unfolding b3_def t3_def using b2 step[OF b2] by simp
  have acc: "accumulate_fragment tc buf = b3"
    by (simp add: accumulate_fragment_def Let_def b3_def b2_def b1_def b0_def)
  have "t3 = extend_invocation ?t0 [tc]"
    by (cases "tcd_id tc"; cases "fd_name (tcd_function tc)"; cases "fd_arguments (tcd_function tc)")
       (simp_all add: t3_def t2_def t1_def extend_invocation_def concatenated_def piece_def str_truthy_def)
  with b3 acc show ?thesis by simp
qed

lemma fold_fragments_keys:
  "fst ` set (fold accumulate_fragment frags buf) = tcd_index ` set frags \<union> fst ` set buf"
  by (induction frags arbitrary: buf) (auto simp: accumulate_fragment_keys)

lemma fold_fragments_distinct:
  "distinct (map fst buf) \<Longrightarrow> distinct (map fst (fold accumulate_fragment frags buf))"
  by (induction frags arbitrary: buf) (auto simp: accumulate_fragment_distinct)

lemma fold_fragments_lookup:
  "map_of (fold accumulate_fragment frags buf) i =
     (if slot_fragments i frags = [] then map_of buf i
      else Some (extend_invocation (case map_of buf i of None \<Rightarrow> new_ToolInvocation | Some t \<Rightarrow> t)
                        (slot_fragments i frags)))"
proof (induction frags arbitrary: buf)
  case Nil
  show ?case by (simp add: slot_fragments_def)
next
  case (Cons f frags)
  show ?case
  proof (cases "tcd_index f = i")
    case True
    then show ?thesis
      using Cons.IH[of "accumulate_fragment f buf"]
      by (simp add: slot_fragments_def accumulate_fragment_lookup extend_Nil extend_Cons)
  next
    case False
    then show ?thesis
      using Cons.IH[of "accumulate_fragment f buf"]
      by (simp add: slot_fragments_def accumulate_fragment_lookup)
  qed
qed

lemma fold_chunks: "fold accumulate_tool_call_chunk chunks buf = fold accumulate_fragment (concat chunks) buf"
  by (induction chunks arbitrary: buf) (simp_all add: accumulate_tool_call_chunk_def)

lemma convert_lookup_defined:
  "idx \<in> set (sort (map fst buf)) \<Longrightarrow> map_of buf idx \<noteq> None"
  by (simp add: map_of_eq_None_iff)

lemma slot_fragments_empty_iff: "slot_fragments i frags = [] \<longleftrightarrow> i \<notin> tcd_index ` set frags"
  by (auto simp: slot_fragments_def filter_empty_conv)

lemma assemble_eq:
  "assemble chunks =
     map (\<lambda>i. concatenated (slot_fragments i (concat chunks))) (slots (concat chunks))"
proof -
  let ?frags = "concat chunks"
  let ?buf = "fold accumulate_fragment ?frags []"
  have keys: "set (map fst ?buf) = tcd_index ` set ?frags"
    using fold_fragments_keys[of ?frags "[]"] by simp
  have dist: "distinct (map fst ?buf)"
    by (rule fold_fragments_distinct) simp
  have "sort (map fst ?buf) = sorted_list_of_set (set (map fst ?buf))"
    using dist by (simp only: sorted_list_of_set_sort_remdups distinct_remdups_id)
  then have srt: "sort (map fst ?buf) = slots ?frags"
    using keys by (simp add: slots_def)
  have look: "the (map_of ?buf i) = concatenated (slot_fragments i ?frags)"
    if "i \<in> set (slots ?frags)" for i
  proof -
    from that have "i \<in> tcd_index ` set ?frags" by (simp add: slots_def)
    then have "slot_fragments i ?frags \<noteq> []" by (simp add: slot_fragments_empty_iff)
    then show ?thesis by (simp add: fold_fragments_lookup extend_new)
  qed
  show ?thesis
    unfolding assemble_def convert_tool_calls_buffer_def fold_chunks srt
    using look by simp
qed

lemma slots_from_fragments:
  assumes "\<And>i. slot_fragments i frags' = slot_fragments i frags"
  shows "slots frags' = slots frags"
proof -
  have "tcd_index ` set frags' = tcd_index ` set frags"
  proof -
    have "i \<in> tcd_index ` set frags' \<longleftrightarrow> i \<in> tcd_index ` set frags" for i
      using assms[of i] slot_fragments_empty_iff[of i frags'] slot_fragments_empty_iff[of i frags]
      by simp
    then show ?thesis by blast
  qed
  then show ?thesis by (simp add: slots_def)
qed

text \<open>
  C1 (Tool Call Assembler). For every sequence of chunks of fragments, the finalized list
  holds one invocation per slot index that occurs, in ascending slot order, and the
  invocation of a slot has as id, function name and function arguments the concatenation,
  in arrival order, of that slot's pieces. Hence any other stream with the same per-slot
  fragment sequences, however interleaved across slots and however cut into chunks,
  assembles to the same list.
\<close>

theorem assembler_concatenates_by_slot:
  "assemble chunks =
     map (\<lambda>i. concatenated (slot_fragments i (concat chunks))) (slots (concat chunks))
   \<and> sorted (slots (concat chunks)) \<and> distinct (slots (concat chunks))
   \<and> set (slots (concat chunks)) = tcd_index ` set (concat chunks)
   \<and> (\<forall>chunks'. (\<forall>i. slot_fragments i (concat chunks') = slot_fragments i (concat chunks))
         \<longrightarrow> assemble chunks' = assemble chunks)"
proof (intro conjI allI impI)
  show "assemble chunks =
     map (\<lambda>i. concatenated (slot_fragments i (concat chunks))) (slots (concat chunks))"
    by (rule assemble_eq)
  show "sorted (slots (concat chunks))" by (simp add: slots_def)
  show "distinct (slots (concat chunks))" by (simp add: slots_def)
  show "set (slots (concat chunks)) = tcd_index ` set (concat chunks)" by (simp add: slots_def)
next
  fix chunks'
  assume same: "\<forall>i. slot_fragments i (concat chunks') = slot_fragments i (concat chunks)"
  then have "slots (concat chunks') = slots (concat chunks)"
    by (intro slots_from_fragments) simp
  with same show "assemble chunks' = assemble chunks"
    by (simp add: assemble_eq)
qed

theorem assembler_concatenates_by_slot_witness:
  "assemble [[frag 1 (Some ''call_'') (Some ''get_'') None, frag 0 (Some ''a'') None (Some ''{'')],
             [frag 0 None (Some ''f'') (Some ''}''), frag 1 (Some ''B'') (Some ''weather'') (Some ''[]'')]]
   = [\<lparr>ti_id = ''a'', ti_function = \<lparr>fn_name = ''f'', fn_arguments = ''{}''\<rparr>\<rparr>,
      \<lparr>ti_id = ''call_B'', ti_function = \<lparr>fn_name = ''get_weather'', fn_arguments = ''[]''\<rparr>\<rparr>]
  \<and> assemble [[frag 0 (Some ''a'') None (Some ''{'')],
             [frag 1 (Some ''call_'') (Some ''get_'') None, frag 1 (Some ''B'') (Some ''weather'') (Some ''[]'')],
             [frag 0 None (Some ''f'') (Some ''}'')]]
   = assemble [[frag 1 (Some ''call_'') (Some ''get_'') None, frag 0 (Some ''a'') None (Some ''{'')],
             [frag 0 None (Some ''f'') (Some ''}''), frag 1 (Some ''B'') (Some ''weather'') (Some ''[]'')]]"
proof -
  let ?A = "[[frag 1 (Some ''call_'') (Some ''get_'') None, frag 0 (Some ''a'') None (Some ''{'')],
             [frag 0 None (Some ''f'') (Some ''}''), frag 1 (Some ''B'') (Some ''weather'') (Some ''[]'')]]"
  let ?B = "[[frag 0 (Some ''a'') None (Some ''{'')],
             [frag 1 (Some ''call_'') (Some ''get_'') None, frag 1 (Some ''B'') (Some ''weather'') (Some ''[]'')],
             [frag 0 None (Some ''f'') (Some ''}'')]]"
  note th = assembler_concatenates_by_slot[of ?A]
  have same: "\<forall>i. slot_fragments i (concat ?B) = slot_fragments i (concat ?A)"
    by (simp add: slot_fragments_def frag_def)
  have 1: "assemble ?B = assemble ?A"
    using th same by blast
  have 2: "assemble ?A = [\<lparr>ti_id = ''a'', ti_function = \<lparr>fn_name = ''f'', fn_arguments = ''{}''\<rparr>\<rparr>,
      \<lparr>ti_id = ''call_B'', ti_function = \<lparr>fn_name = ''get_weather'', fn_arguments = ''[]''\<rparr>\<rparr>]"
    by (simp add: assemble_def convert_tool_calls_buffer_def accumulate_tool_call_chunk_def
        accumulate_fragment_def frag_def str_truthy_def new_ToolInvocation_def new_InvokedFunction_def Let_def)
  show ?thesis using 1 2 by simp
qed


section \<open>Properties of the External Data Client\<close>

lemma caught_timeout: "caught e [HttpxTimeoutException] \<longleftrightarrow> exn_class e = HttpxTimeoutException"
  by (simp add: caught_def exn_subclass_def)

lemma caught_http:
  "caught e [HttpxHTTPError] \<longleftrightarrow>
     exn_class e = HttpxHTTPError \<or> exn_class e = HttpxTimeoutException"
  by (auto simp: caught_def exn_subclass_def)

text \<open>
  C6 (External Data Client, resolution), as amended. \<^verbatim>\<open>get_coordinates\<close> returns \<^verbatim>\<open>None\<close>
  when the service reports no results, when the request times out and when it fails with
  another HTTP error alike; the three cases differ only in what is printed: nothing, the
  "Geocoding API timeout" line, the "Geocoding API failed" line.
\<close>

theorem get_coordinates_merges_failures:
  "(client OPEN_METEO_GEO_URL (GeocodingParams_to_dict city) = Inr data
      \<and> py_get data ''results'' PNone = Inr r \<and> \<not> truthy r
      \<longrightarrow> get_coordinates client city = ([], Inr None))
   \<and> (client OPEN_METEO_GEO_URL (GeocodingParams_to_dict city) = Inl e
      \<and> exn_class e = HttpxTimeoutException
      \<longrightarrow> get_coordinates client city =
            (print_line (CHR 0x0A # ''[System Error] Geocoding API timeout: '' @ exn_str e), Inr None))
   \<and> (client OPEN_METEO_GEO_URL (GeocodingParams_to_dict city) = Inl e
      \<and> exn_class e = HttpxHTTPError
      \<longrightarrow> get_coordinates client city =
            (print_line (CHR 0x0A # ''[System Error] Geocoding API failed: '' @ exn_str e), Inr None))"
  by (simp add: get_coordinates_def location_of_body_def then_do_def caught_timeout caught_http)

theorem get_coordinates_merges_failures_witness:
  "get_coordinates (\<lambda>url params. Inr (PDict [(PStr ''results'', PList [])])) (PStr ''Atlantis'')
     = ([], Inr None)
   \<and> get_coordinates (\<lambda>url params. Inl (PyExn HttpxTimeoutException ''timed out'')) (PStr ''Atlantis'')
     = (print_line (CHR 0x0A # ''[System Error] Geocoding API timeout: timed out''), Inr None)
   \<and> get_coordinates (\<lambda>url params. Inl (PyExn HttpxHTTPError ''503'')) (PStr ''Atlantis'')
     = (print_line (CHR 0x0A # ''[System Error] Geocoding API failed: 503''), Inr None)"
proof (intro conjI)
  show "get_coordinates (\<lambda>url params. Inr (PDict [(PStr ''results'', PList [])])) (PStr ''Atlantis'')
     = ([], Inr None)"
    using get_coordinates_merges_failures
      [of "\<lambda>url params. Inr (PDict [(PStr ''results'', PList [])])" "PStr ''Atlantis''"
          "PDict [(PStr ''results'', PList [])]" "PList []"]
    by simp
  show "get_coordinates (\<lambda>url params. Inl (PyExn HttpxTimeoutException ''timed out'')) (PStr ''Atlantis'')
     = (print_line (CHR 0x0A # ''[System Error] Geocoding API timeout: timed out''), Inr None)"
    using get_coordinates_merges_failures
      [of "\<lambda>url params. Inl (PyExn HttpxTimeoutException ''timed out'')" "PStr ''Atlantis''"
          _ _ "PyExn HttpxTimeoutException ''timed out''"]
    by simp
  show "get_coordinates (\<lambda>url params. Inl (PyExn HttpxHTTPError ''503'')) (PStr ''Atlantis'')
     = (print_line (CHR 0x0A # ''[System Error] Geocoding API failed: 503''), Inr None)"
    using get_coordinates_merges_failures
      [of "\<lambda>url params. Inl (PyExn HttpxHTTPError ''503'')" "PStr ''Atlantis''"
          _ _ "PyExn HttpxHTTPError ''503''"]
    by simp
qed

text \<open>
  The claim as stated fails: for the city "Atlantis", a response without results and a
  timed-out request give the caller the same returned value.
\<close>

theorem get_coordinates_not_found_equals_timeout:
  "snd (get_coordinates (\<lambda>url params. Inr (PDict [(PStr ''results'', PList [])])) (PStr ''Atlantis''))
   = snd (get_coordinates (\<lambda>url params. Inl (PyExn HttpxTimeoutException ''timed out'')) (PStr ''Atlantis''))"
  by (simp add: get_coordinates_def location_of_body_def then_do_def caught_def exn_subclass_def)

section \<open>Properties of the Tool Argument Parser\<close>

text \<open>Where the parser does return: the decoder rejects the text, or the text is an object
  without a \<^verbatim>\<open>cities\<close> field, or with a list under it.\<close>

lemma parse_undecodable:
  "lib_json_loads L a = Inl e \<Longrightarrow> caught e [JSONDecodeError, AttributeError] \<Longrightarrow>
   parse_tool_arguments L a = Inr \<lparr>pta_cities = PList [], pta_raw_arguments = PDict []\<rparr>"
  by (simp add: parse_tool_arguments_def decode_arguments_def cities_entry_def then_do_def)

lemma parse_without_cities:
  "lib_json_loads L a = Inr (PDict d) \<Longrightarrow> map_of d (PStr ''cities'') = None \<Longrightarrow>
   parse_tool_arguments L a = Inr \<lparr>pta_cities = PList [], pta_raw_arguments = PDict d\<rparr>"
  by (simp add: parse_tool_arguments_def decode_arguments_def cities_entry_def then_do_def)

lemma parse_cities_list:
  "lib_json_loads L a = Inr (PDict d) \<Longrightarrow> map_of d (PStr ''cities'') = Some (PList xs) \<Longrightarrow>
   parse_tool_arguments L a = Inr \<lparr>pta_cities = PList xs, pta_raw_arguments = PDict d\<rparr>"
  by (simp add: parse_tool_arguments_def decode_arguments_def cities_entry_def then_do_def)

lemma parse_null:
  "parse_tool_arguments \<lparr>lib_json_loads = json_loads, lib_literal_eval = leval, lib_str = str_of\<rparr>
     ''null''
   = Inl (PyExn TypeError (''argument of type '' @ quoted ''NoneType'' @ '' is not iterable''))"
  by (simp add: parse_eval json_eval)

text \<open>
  C2 (Tool Argument Parser totality) does not hold of the code. The argument text
  \<^verbatim>\<open>null\<close> is valid JSON without a \<^verbatim>\<open>cities\<close> field; it decodes to \<^verbatim>\<open>None\<close>, on which the
  membership test \<^verbatim>\<open>"cities" in arguments\<close> raises \<^verbatim>\<open>TypeError\<close>, which nothing in the
  parser catches. The argument text \<^verbatim>\<open>{"cities": "5"}\<close> has \<^verbatim>\<open>cities\<close> as a JSON-encoded
  string; the parser returns with the integer 5 as its cities value, which is not a list.
\<close>

theorem parse_tool_arguments_not_total:
  "raises TypeError
     (parse_tool_arguments
        \<lparr>lib_json_loads = json_loads, lib_literal_eval = leval, lib_str = str_of\<rparr> ''null'')
   \<and> parse_tool_arguments
        \<lparr>lib_json_loads = json_loads, lib_literal_eval = leval, lib_str = str_of\<rparr>
        ''{\"cities\": \"5\"}''
     = Inr \<lparr>pta_cities = PInt 5, pta_raw_arguments = PDict [(PStr ''cities'', PStr ''5'')]\<rparr>"
proof
  show "raises TypeError
     (parse_tool_arguments
        \<lparr>lib_json_loads = json_loads, lib_literal_eval = leval, lib_str = str_of\<rparr> ''null'')"
    by (simp add: parse_eval json_eval raises_def)
  have 1: "json_loads ''{\"cities\": \"5\"}'' = Inr (PDict [(PStr ''cities'', PStr ''5'')])"
    by (simp add: json_eval)
  have 2: "json_loads ''5'' = Inr (PInt 5)"
    by (simp add: json_eval)
  show "parse_tool_arguments
        \<lparr>lib_json_loads = json_loads, lib_literal_eval = leval, lib_str = str_of\<rparr>
        ''{\"cities\": \"5\"}''
     = Inr \<lparr>pta_cities = PInt 5, pta_raw_arguments = PDict [(PStr ''cities'', PStr ''5'')]\<rparr>"
    by (simp add: parse_eval 1 2)
qed

section \<open>Properties of the Tool Executor\<close>

lemma process_city_results_from_eq:
  "i + length rs \<le> length cities \<Longrightarrow>
   process_city_results_from L i cities rs =
     Inr (map (\<lambda>(j, r). gathered L (cities ! j) r) (enumerate i rs))"
proof (induction rs arbitrary: i)
  case Nil
  show ?case by simp
next
  case (Cons r rs)
  then have IH: "process_city_results_from L (Suc i) cities rs =
     Inr (map (\<lambda>(j, r). gathered L (cities ! j) r) (enumerate (Suc i) rs))"
    and i: "i < length cities" by simp_all
  show ?case
    by (cases r) (simp_all add: IH i then_do_def gathered_def)
qed

lemma gathered_task:
  "gathered L city (snd (get_weather_for_city L client city)) = city_entry L client city"
  by (auto simp: gathered_def city_entry_def get_weather_for_city_def Let_def
           split: prod.splits sum.splits option.splits)

lemma city_entry_city: "cwr_city (city_entry L client city) = city"
  by (simp add: city_entry_def error_result_def split: sum.splits option.splits)

lemma fetch_results:
  "snd (fetch_weather_for_cities L clients cities) =
     Inr (map (\<lambda>(i, city). city_entry L (clients i) city) (enumerate 0 cities))"
proof -
  let ?tasks = "map (\<lambda>(i, city). get_weather_for_city L (clients i) city) (enumerate 0 cities)"
  have "process_city_results_from L 0 cities (map snd ?tasks) =
     Inr (map (\<lambda>(j, r). gathered L (cities ! j) r) (enumerate 0 (map snd ?tasks)))"
    by (rule process_city_results_from_eq) simp
  also have "map (\<lambda>(j, r). gathered L (cities ! j) r) (enumerate 0 (map snd ?tasks)) =
     map (\<lambda>(i, city). city_entry L (clients i) city) (enumerate 0 cities)"
    by (rule nth_equalityI) (simp_all add: nth_enumerate_eq gathered_task)
  finally show ?thesis
    by (simp add: fetch_weather_for_cities_def process_city_results_def Let_def)
qed

lemma city_entry_error_iff:
  "cwr_error (city_entry L client city) = None \<longleftrightarrow>
     (\<exists>loc weather_data.
        snd (get_coordinates client city) = Inr (Some loc)
        \<and> get_current_weather client (loc_latitude loc) (loc_longitude loc) = Inr weather_data)"
  by (auto simp: city_entry_def error_result_def split: sum.splits option.splits)

text \<open>
  C3 (Tool Executor fan-out). For every list of cities, the fan-out returns normally with
  one entry per city, in the order of the input, and one task log per city. Entry \<open>i\<close> is
  \<open>city_entry\<close> of city \<open>i\<close> and of that city's own exchanges: a failure of the
  resolution (nothing found, transport failure, an exception raised) or of the weather
  fetch becomes an error entry of that city (lemma \<open>city_entry_error_iff\<close>), and entry
  \<open>i\<close> is the same under any other exchanges \<open>clients'\<close> that agree with \<open>clients\<close> on
  task \<open>i\<close>, whatever happens to the other cities. That the result holds an entry for every task is how the model renders
  "waits for all": the scheduling itself is not modelled.
\<close>

theorem fan_out_preserves_order:
  "snd (fetch_weather_for_cities L clients cities) =
     Inr (map (\<lambda>(i, city). city_entry L (clients i) city) (enumerate 0 cities))
   \<and> length (map (\<lambda>(i, city). city_entry L (clients i) city) (enumerate 0 cities)) = length cities
   \<and> map cwr_city (map (\<lambda>(i, city). city_entry L (clients i) city) (enumerate 0 cities)) = cities
   \<and> length (fst (fetch_weather_for_cities L clients cities)) = length cities
   \<and> (\<forall>i. i < length cities \<longrightarrow>
        map (\<lambda>(i, city). city_entry L (clients i) city) (enumerate 0 cities) ! i
          = city_entry L (clients i) (cities ! i))
   \<and> (\<forall>clients' i. i < length cities \<and> clients' i = clients i \<longrightarrow>
        (\<exists>rs rs'. snd (fetch_weather_for_cities L clients cities) = Inr rs
                 \<and> snd (fetch_weather_for_cities L clients' cities) = Inr rs'
                 \<and> length rs = length cities \<and> length rs' = length cities
                 \<and> rs' ! i = rs ! i))"
proof (intro conjI allI impI)
  show "snd (fetch_weather_for_cities L clients cities) =
     Inr (map (\<lambda>(i, city). city_entry L (clients i) city) (enumerate 0 cities))"
    by (rule fetch_results)
  show "length (map (\<lambda>(i, city). city_entry L (clients i) city) (enumerate 0 cities)) = length cities"
    by simp
  show "map cwr_city (map (\<lambda>(i, city). city_entry L (clients i) city) (enumerate 0 cities)) = cities"
    by (rule nth_equalityI) (simp_all add: nth_enumerate_eq city_entry_city)
  show "length (fst (fetch_weather_for_cities L clients cities)) = length cities"
    by (simp add: fetch_weather_for_cities_def Let_def)
next
  fix i assume "i < length cities"
  then show "map (\<lambda>(i, city). city_entry L (clients i) city) (enumerate 0 cities) ! i
          = city_entry L (clients i) (cities ! i)"
    by (simp add: nth_enumerate_eq)
next
  fix clients' :: "nat \<Rightarrow> http_client" and i
  assume a: "i < length cities \<and> clients' i = clients i"
  then have "map (\<lambda>(i, city). city_entry L (clients' i) city) (enumerate 0 cities) ! i
      = map (\<lambda>(i, city). city_entry L (clients i) city) (enumerate 0 cities) ! i"
    by (simp add: nth_enumerate_eq)
  then show "\<exists>rs rs'. snd (fetch_weather_for_cities L clients cities) = Inr rs
                 \<and> snd (fetch_weather_for_cities L clients' cities) = Inr rs'
                 \<and> length rs = length cities \<and> length rs' = length cities
                 \<and> rs' ! i = rs ! i"
    by (simp add: fetch_results)
qed

theorem fan_out_preserves_order_witness:
  "\<forall>L. map_sum id (map cwr_city)
         (snd (fetch_weather_for_cities L
            (\<lambda>i url params.
               if i = 1 then Inr (PDict [])
               else if url = OPEN_METEO_GEO_URL then
                 Inr (PDict [(PStr ''results'',
                        PList [PDict [(PStr ''latitude'', PInt 1), (PStr ''longitude'', PInt 2),
                                      (PStr ''name'', PStr ''N'')]])])
               else if i = 0 then Inr (PDict [])
               else Inl (PyExn HttpxHTTPError ''503''))
            [PStr ''X'', PStr ''Y'', PStr ''Z'']))
        = Inr [PStr ''X'', PStr ''Y'', PStr ''Z'']
     \<and> map_sum id (map cwr_error)
         (snd (fetch_weather_for_cities L
            (\<lambda>i url params.
               if i = 1 then Inr (PDict [])
               else if url = OPEN_METEO_GEO_URL then
                 Inr (PDict [(PStr ''results'',
                        PList [PDict [(PStr ''latitude'', PInt 1), (PStr ''longitude'', PInt 2),
                                      (PStr ''name'', PStr ''N'')]])])
               else if i = 0 then Inr (PDict [])
               else Inl (PyExn HttpxHTTPError ''503''))
            [PStr ''X'', PStr ''Y'', PStr ''Z'']))
        = Inr [None,
               Some (''Error: Could not find coordinates for city '' @ quoted ''Y'' @ ''.''),
               Some ''Error fetching weather data for Z: Error fetching weather data: 503'']"
proof
  fix L :: pylib
  let ?clients = "\<lambda>(i::nat) url (params :: (string \<times> pyval) list).
               if i = 1 then Inr (PDict [])
               else if url = OPEN_METEO_GEO_URL then
                 Inr (PDict [(PStr ''results'',
                        PList [PDict [(PStr ''latitude'', PInt 1), (PStr ''longitude'', PInt 2),
                                      (PStr ''name'', PStr ''N'')]])])
               else if i = 0 then Inr (PDict [])
               else (Inl (PyExn HttpxHTTPError ''503'') :: py_exn + pyval)"
  let ?cities = "[PStr ''X'', PStr ''Y'', PStr ''Z'']"
  have r: "snd (fetch_weather_for_cities L ?clients ?cities) =
     Inr (map (\<lambda>(i, city). city_entry L (?clients i) city) (enumerate 0 ?cities))"
    using fan_out_preserves_order[of L ?clients ?cities] by blast
  have e0: "city_entry L (?clients 0) (PStr ''X'') =
      \<lparr>cwr_city = PStr ''X'',
       cwr_location = Some \<lparr>loc_latitude = PInt 1, loc_longitude = PInt 2, loc_name = PStr ''N'',
                            loc_country = PStr []\<rparr>,
       cwr_weather_data = Some \<lparr>wd_temperature = float_zero, wd_apparent_temperature = float_zero,
            wd_humidity = float_zero, wd_wind_speed = float_zero,
            wd_precipitation = float_zero, wd_weather_code = PNone,
            wd_temperature_unit = default_temperature_unit, wd_humidity_unit = PStr ''%'',
            wd_wind_speed_unit = PStr ''km/h'',
            wd_precipitation_unit = PStr ''mm''\<rparr>,
       cwr_error = None\<rparr>"
    by (simp add: city_entry_def get_coordinates_def location_of_body_def then_do_def
        get_current_weather_def weather_of_body_def OPEN_METEO_GEO_URL_def OPEN_METEO_WEATHER_URL_def)
  have e1: "city_entry L (?clients 1) (PStr ''Y'') =
      error_result (PStr ''Y'') (''Error: Could not find coordinates for city '' @ quoted ''Y'' @ ''.'')"
    by (simp add: city_entry_def get_coordinates_def location_of_body_def then_do_def py_format_def)
  have e2: "city_entry L (?clients 2) (PStr ''Z'') =
      error_result (PStr ''Z'') ''Error fetching weather data for Z: Error fetching weather data: 503''"
    by (simp add: city_entry_def get_coordinates_def location_of_body_def then_do_def py_format_def
        get_current_weather_def weather_of_body_def OPEN_METEO_GEO_URL_def OPEN_METEO_WEATHER_URL_def
        caught_def exn_subclass_def)
  have "map (\<lambda>(i, city). city_entry L (?clients i) city) (enumerate 0 ?cities)
        = [city_entry L (?clients 0) (PStr ''X''), city_entry L (?clients 1) (PStr ''Y''),
           city_entry L (?clients 2) (PStr ''Z'')]"
    by (simp add: numeral_2_eq_2)
  with r e0 e1 e2 show "map_sum id (map cwr_city) (snd (fetch_weather_for_cities L ?clients ?cities))
        = Inr ?cities
     \<and> map_sum id (map cwr_error) (snd (fetch_weather_for_cities L ?clients ?cities))
        = Inr [None,
               Some (''Error: Could not find coordinates for city '' @ quoted ''Y'' @ ''.''),
               Some ''Error fetching weather data for Z: Error fetching weather data: 503'']"
    by (simp add: error_result_def)
qed

lemma normalize_empty_iff:
  "validate_and_normalize_cities arguments = Inr [] \<longleftrightarrow>
     (\<exists>d. arguments = PDict d \<and>
        (map_of d (PStr ''cities'') = None
         \<or> map_of d (PStr ''cities'') = Some (PList [])
         \<or> (\<exists>v. map_of d (PStr ''cities'') = Some v \<and> \<not> is_list v \<and> \<not> truthy v)))"
proof (cases arguments)
  case (PDict d)
  show ?thesis
  proof (cases "map_of d (PStr ''cities'')")
    case None
    with PDict show ?thesis by (simp add: validate_and_normalize_cities_def then_do_def)
  next
    case (Some v)
    with PDict show ?thesis
      by (cases v) (simp_all add: validate_and_normalize_cities_def then_do_def)
  qed
qed (simp_all add: validate_and_normalize_cities_def then_do_def)

text \<open>
  C5 (Tool Executor, empty input). Whenever the normalized city list is empty, the
  executor returns the one tool result with the fixed content "Error: No cities provided."
  and the call id, and no city task runs (the list of task logs is empty). The normalized
  list is empty exactly when the arguments are a dict in which \<^verbatim>\<open>cities\<close> is absent, is
  the empty list, or is a falsy value that is not a list.
\<close>

theorem empty_city_list_yields_error:
  "(validate_and_normalize_cities arguments = Inr [] \<longrightarrow>
      run_weather_tool L clients \<lparr>wtp_call_id = call_id, wtp_arguments = arguments\<rparr> =
        ([], Inr \<lparr>tr_tool_call_id = call_id, tr_role = ''tool'', tr_name = ''get_weather'',
                  tr_content = ''Error: No cities provided.''\<rparr>))
   \<and> (validate_and_normalize_cities arguments = Inr [] \<longleftrightarrow>
        (\<exists>d. arguments = PDict d \<and>
           (map_of d (PStr ''cities'') = None
            \<or> map_of d (PStr ''cities'') = Some (PList [])
            \<or> (\<exists>v. map_of d (PStr ''cities'') = Some v \<and> \<not> is_list v \<and> \<not> truthy v))))"
proof (intro conjI impI)
  assume "validate_and_normalize_cities arguments = Inr []"
  then show "run_weather_tool L clients \<lparr>wtp_call_id = call_id, wtp_arguments = arguments\<rparr> =
        ([], Inr \<lparr>tr_tool_call_id = call_id, tr_role = ''tool'', tr_name = ''get_weather'',
                  tr_content = ''Error: No cities provided.''\<rparr>)"
    by (simp add: run_weather_tool_def create_error_response_def to_tool_response_def
        ToolCallResponse_def ROLE_TOOL_def WEATHER_TOOL_NAME_def)
next
  show "validate_and_normalize_cities arguments = Inr [] \<longleftrightarrow>
        (\<exists>d. arguments = PDict d \<and>
           (map_of d (PStr ''cities'') = None
            \<or> map_of d (PStr ''cities'') = Some (PList [])
            \<or> (\<exists>v. map_of d (PStr ''cities'') = Some v \<and> \<not> is_list v \<and> \<not> truthy v)))"
    by (rule normalize_empty_iff)
qed

theorem empty_city_list_yields_error_witness:
  "\<forall>L clients.
     run_weather_tool L clients \<lparr>wtp_call_id = ''call_1'', wtp_arguments = PDict []\<rparr> =
       ([], Inr \<lparr>tr_tool_call_id = ''call_1'', tr_role = ''tool'', tr_name = ''get_weather'',
                 tr_content = ''Error: No cities provided.''\<rparr>)
   \<and> run_weather_tool L clients
        \<lparr>wtp_call_id = ''call_1'', wtp_arguments = PDict [(PStr ''cities'', PList [])]\<rparr> =
       ([], Inr \<lparr>tr_tool_call_id = ''call_1'', tr_role = ''tool'', tr_name = ''get_weather'',
                 tr_content = ''Error: No cities provided.''\<rparr>)
   \<and> run_weather_tool L clients
        \<lparr>wtp_call_id = ''call_1'', wtp_arguments = PDict [(PStr ''cities'', PStr [])]\<rparr> =
       ([], Inr \<lparr>tr_tool_call_id = ''call_1'', tr_role = ''tool'', tr_name = ''get_weather'',
                 tr_content = ''Error: No cities provided.''\<rparr>)"
proof (intro allI conjI)
  fix L :: pylib and clients :: "nat \<Rightarrow> http_client"
  have a: "validate_and_normalize_cities (PDict []) = Inr []"
    by (simp add: validate_and_normalize_cities_def then_do_def)
  have b: "validate_and_normalize_cities (PDict [(PStr ''cities'', PList [])]) = Inr []"
    by (simp add: validate_and_normalize_cities_def then_do_def)
  have c: "validate_and_normalize_cities (PDict [(PStr ''cities'', PStr [])]) = Inr []"
    by (simp add: validate_and_normalize_cities_def then_do_def)
  show "run_weather_tool L clients \<lparr>wtp_call_id = ''call_1'', wtp_arguments = PDict []\<rparr> =
       ([], Inr \<lparr>tr_tool_call_id = ''call_1'', tr_role = ''tool'', tr_name = ''get_weather'',
                 tr_content = ''Error: No cities provided.''\<rparr>)"
    using empty_city_list_yields_error[of "PDict []" L clients "''call_1''"] a by blast
  show "run_weather_tool L clients
        \<lparr>wtp_call_id = ''call_1'', wtp_arguments = PDict [(PStr ''cities'', PList [])]\<rparr> =
       ([], Inr \<lparr>tr_tool_call_id = ''call_1'', tr_role = ''tool'', tr_name = ''get_weather'',
                 tr_content = ''Error: No cities provided.''\<rparr>)"
    using empty_city_list_yields_error[of "PDict [(PStr ''cities'', PList [])]" L clients "''call_1''"] b
    by blast
  show "run_weather_tool L clients
        \<lparr>wtp_call_id = ''call_1'', wtp_arguments = PDict [(PStr ''cities'', PStr [])]\<rparr> =
       ([], Inr \<lparr>tr_tool_call_id = ''call_1'', tr_role = ''tool'', tr_name = ''get_weather'',
                 tr_content = ''Error: No cities provided.''\<rparr>)"
    using empty_city_list_yields_error[of "PDict [(PStr ''cities'', PStr [])]" L clients "''call_1''"] c
    by blast
qed

text \<open>
  C10 (raw arguments take precedence). When the argument text decodes to a dict whose
  \<^verbatim>\<open>cities\<close> value is a non-empty string \<open>s\<close>, and decoding \<open>s\<close> gives the empty list, then
  the parser returns the empty list with the raw dict, \<^verbatim>\<open>to_dict\<close> returns the raw dict
  unchanged (the string still under \<^verbatim>\<open>cities\<close>), normalization wraps the string as the
  single city \<open>s\<close>, and the executor runs exactly one city task, for \<open>s\<close>, whose first
  request is the geocoding lookup of \<open>s\<close>; its result is that city's entry, not the
  "no cities provided" error.
\<close>

theorem raw_cities_string_is_looked_up:
  assumes "lib_json_loads L a = Inr (PDict d)"
    and "map_of d (PStr ''cities'') = Some (PStr s)"
    and "cities_of_string L s = Inr (PList [])"
    and "s \<noteq> []"
  shows "parse_tool_arguments L a = Inr \<lparr>pta_cities = PList [], pta_raw_arguments = PDict d\<rparr>
    \<and> ParsedToolArguments_to_dict \<lparr>pta_cities = PList [], pta_raw_arguments = PDict d\<rparr> = Inr (PDict d)
    \<and> validate_and_normalize_cities (PDict d) = Inr [PStr s]
    \<and> fst (execute_tool_call L clients
             \<lparr>ti_id = call_id, ti_function = \<lparr>fn_name = WEATHER_TOOL_NAME, fn_arguments = a\<rparr>\<rparr>)
        = [fst (get_weather_for_city L (clients 0) (PStr s))]
    \<and> hd (tl_requests (fst (get_weather_for_city L (clients 0) (PStr s))))
        = (OPEN_METEO_GEO_URL, GeocodingParams_to_dict (PStr s))
    \<and> snd (execute_tool_call L clients
             \<lparr>ti_id = call_id, ti_function = \<lparr>fn_name = WEATHER_TOOL_NAME, fn_arguments = a\<rparr>\<rparr>)
        = then_do (CityWeatherResult_to_string L (city_entry L (clients 0) (PStr s)))
            (\<lambda>content. Inr (to_tool_response call_id WEATHER_TOOL_NAME content))"
proof -
  have p: "parse_tool_arguments L a = Inr \<lparr>pta_cities = PList [], pta_raw_arguments = PDict d\<rparr>"
    using assms by (simp add: parse_tool_arguments_def decode_arguments_def cities_entry_def then_do_def)
  have t: "ParsedToolArguments_to_dict \<lparr>pta_cities = PList [], pta_raw_arguments = PDict d\<rparr>
             = Inr (PDict d)"
    by (simp add: ParsedToolArguments_to_dict_def then_do_def)
  have v: "validate_and_normalize_cities (PDict d) = Inr [PStr s]"
    using assms by (simp add: validate_and_normalize_cities_def then_do_def)
  have x: "execute_tool_call L clients
             \<lparr>ti_id = call_id, ti_function = \<lparr>fn_name = WEATHER_TOOL_NAME, fn_arguments = a\<rparr>\<rparr>
           = run_weather_tool L clients \<lparr>wtp_call_id = call_id, wtp_arguments = PDict d\<rparr>"
    by (simp add: execute_tool_call_def p t)
  have f1: "fst (fetch_weather_for_cities L clients [PStr s])
              = [fst (get_weather_for_city L (clients 0) (PStr s))]"
    by (simp add: fetch_weather_for_cities_def Let_def)
  have f2: "snd (fetch_weather_for_cities L clients [PStr s])
              = Inr [city_entry L (clients 0) (PStr s)]"
    by (simp add: fetch_results)
  have f: "fetch_weather_for_cities L clients [PStr s]
              = ([fst (get_weather_for_city L (clients 0) (PStr s))],
                 Inr [city_entry L (clients 0) (PStr s)])"
    using f1 f2 by (simp add: prod_eq_iff)
  have r: "run_weather_tool L clients \<lparr>wtp_call_id = call_id, wtp_arguments = PDict d\<rparr>
      = ([fst (get_weather_for_city L (clients 0) (PStr s))],
         then_do (CityWeatherResult_to_string L (city_entry L (clients 0) (PStr s)))
            (\<lambda>content. Inr (to_tool_response call_id WEATHER_TOOL_NAME content)))"
    by (simp add: run_weather_tool_def v f format_weather_content_def then_do_def
        split: sum.splits)
  have h: "hd (tl_requests (fst (get_weather_for_city L (clients 0) (PStr s))))
        = (OPEN_METEO_GEO_URL, GeocodingParams_to_dict (PStr s))"
    by (simp add: get_weather_for_city_def Let_def split: prod.splits sum.splits option.splits)
  show ?thesis using p t v x r h by simp
qed

theorem raw_cities_string_is_looked_up_witness:
  "\<forall>leval str_of clients.
     validate_and_normalize_cities (PDict [(PStr ''cities'', PStr ''[]'')]) = Inr [PStr ''[]'']
   \<and> fst (execute_tool_call
            \<lparr>lib_json_loads = json_loads, lib_literal_eval = leval, lib_str = str_of\<rparr> clients
            \<lparr>ti_id = ''call_1'',
             ti_function = \<lparr>fn_name = WEATHER_TOOL_NAME, fn_arguments = ''{\"cities\": \"[]\"}''\<rparr>\<rparr>)
       = [fst (get_weather_for_city
                 \<lparr>lib_json_loads = json_loads, lib_literal_eval = leval, lib_str = str_of\<rparr>
                 (clients 0) (PStr ''[]''))]
   \<and> hd (tl_requests (fst (get_weather_for_city
                 \<lparr>lib_json_loads = json_loads, lib_literal_eval = leval, lib_str = str_of\<rparr>
                 (clients 0) (PStr ''[]''))))
       = (OPEN_METEO_GEO_URL, GeocodingParams_to_dict (PStr ''[]''))"
proof (intro allI)
  fix leval :: "string \<Rightarrow> py_exn + pyval" and str_of :: "pyval \<Rightarrow> string"
    and clients :: "nat \<Rightarrow> http_client"
  let ?L = "\<lparr>lib_json_loads = json_loads, lib_literal_eval = leval, lib_str = str_of\<rparr>"
  have 1: "lib_json_loads ?L ''{\"cities\": \"[]\"}'' = Inr (PDict [(PStr ''cities'', PStr ''[]'')])"
    by (simp add: json_eval)
  have 2: "map_of [(PStr ''cities'', PStr ''[]'')] (PStr ''cities'') = Some (PStr ''[]'')"
    by simp
  have 3: "cities_of_string ?L ''[]'' = Inr (PList [])"
    by (simp add: cities_of_string_def json_eval)
  have 4: "''[]'' \<noteq> []" by simp
  show "validate_and_normalize_cities (PDict [(PStr ''cities'', PStr ''[]'')]) = Inr [PStr ''[]'']
   \<and> fst (execute_tool_call ?L clients
            \<lparr>ti_id = ''call_1'',
             ti_function = \<lparr>fn_name = WEATHER_TOOL_NAME, fn_arguments = ''{\"cities\": \"[]\"}''\<rparr>\<rparr>)
       = [fst (get_weather_for_city ?L (clients 0) (PStr ''[]''))]
   \<and> hd (tl_requests (fst (get_weather_for_city ?L (clients 0) (PStr ''[]''))))
       = (OPEN_METEO_GEO_URL, GeocodingParams_to_dict (PStr ''[]''))"
    using raw_cities_string_is_looked_up[OF 1 2 3 4, of clients "''call_1''"] by blast
qed

lemma unknown_tool_fixed_error:
  "parse_tool_arguments L (fn_arguments (ti_function tool_call)) = Inr parsed_args \<Longrightarrow>
   fn_name (ti_function tool_call) \<noteq> WEATHER_TOOL_NAME \<Longrightarrow>
   execute_tool_call L clients tool_call =
     ([], Inr \<lparr>tr_tool_call_id = ti_id tool_call, tr_role = ''tool'',
               tr_name = fn_name (ti_function tool_call),
               tr_content = ''Error: Unknown function requested.''\<rparr>)"
  by (simp add: execute_tool_call_def ToolCallResponse_def ROLE_TOOL_def)

text \<open>
  C9 (unknown tool name) does not hold of the code. \<^verbatim>\<open>_execute_tool_call\<close> parses the
  arguments before it looks at the function name, so for the unknown function
  \<^verbatim>\<open>get_forecast\<close> called with the argument text \<^verbatim>\<open>null\<close> the parser's \<^verbatim>\<open>TypeError\<close> leaves
  the function; no tool result is returned. (Lemma \<open>unknown_tool_fixed_error\<close>: whenever
  the parser returns, the fixed error result is returned.)
\<close>

theorem unknown_tool_with_null_arguments_raises:
  "execute_tool_call
     \<lparr>lib_json_loads = json_loads, lib_literal_eval = leval, lib_str = str_of\<rparr> clients
     \<lparr>ti_id = ''call_1'',
      ti_function = \<lparr>fn_name = ''get_forecast'', fn_arguments = ''null''\<rparr>\<rparr>
   = ([], Inl (PyExn TypeError (''argument of type '' @ quoted ''NoneType'' @ '' is not iterable'')))"
  by (simp add: execute_tool_call_def parse_null)

section \<open>Properties of the Interaction Loop\<close>

lemma process_chunks_buffer:
  "process_chunks chunks (out, content, buf) = (out', Inr (content', buf')) \<Longrightarrow>
   buf' = fold accumulate_tool_call_chunk (map chunk_fragments chunks) buf"
proof (induction chunks arbitrary: out content buf)
  case Nil
  then show ?case by simp
next
  case (Cons chunk chunks)
  from Cons.prems obtain out1 content1 buf1 where
    step: "process_chunk chunk (out, content, buf) = Inr (out1, content1, buf1)"
    and rest: "process_chunks chunks (out1, content1, buf1) = (out', Inr (content', buf'))"
    by (auto split: sum.splits)
  from step have "buf1 = accumulate_tool_call_chunk (chunk_fragments chunk) buf"
    by (auto simp: process_chunk_def chunk_fragments_def accumulate_tool_call_chunk_def Let_def
             split: list.splits option.splits if_splits prod.splits)
  with Cons.IH[OF rest] show ?case by simp
qed

lemma process_stream_buffer:
  "process_stream (chunks, err) out = (out', Inr (content, buf)) \<Longrightarrow>
   convert_tool_calls_buffer buf = assemble (map chunk_fragments chunks)"
  by (auto simp: process_stream_def assemble_def split: prod.splits sum.splits option.splits
           dest: process_chunks_buffer)

lemma caught_api_timeout: "caught e [APITimeoutError] \<longleftrightarrow> exn_class e = APITimeoutError"
  by (simp add: caught_def exn_subclass_def)

lemma turn_timeout:
  assumes "map_raising Message_to_dict (conversation_history st) = Inr messages"
    and "w_chat w (requests_made st) messages = ApiRaises e"
    and "exn_class e = APITimeoutError"
  shows "turn w st =
     (st\<lparr>requests_made := Suc (requests_made st),
         stdout := stdout st
            @ print_line (CHR 0x0A # ''[System Error] API request timeout: '' @ exn_str e)\<rparr>,
      Inr False)"
  using assms by (simp add: turn_def create_api_stream_def caught_api_timeout Let_def)

text \<open>
  C7 (Interaction Loop, timeout at stream creation). When the transcript serializes and
  the chat request made with it raises \<^verbatim>\<open>APITimeoutError\<close>, the loop returns at once: the
  state afterwards is the state before with the request counted and the timeout line
  printed, so the transcript is unchanged. Started by \<^verbatim>\<open>process_message\<close>, the transcript
  afterwards is the transcript before plus the user message.
\<close>

theorem timeout_appends_nothing:
  "(map_raising Message_to_dict (conversation_history st) = Inr messages
      \<and> w_chat w (requests_made st) messages = ApiRaises e
      \<and> exn_class e = APITimeoutError
    \<longrightarrow> run_interaction_loop w st =
          Some (st\<lparr>requests_made := Suc (requests_made st),
                   stdout := stdout st
                     @ print_line (CHR 0x0A # ''[System Error] API request timeout: '' @ exn_str e)\<rparr>))
   \<and> (map_raising Message_to_dict
          (conversation_history st @ [Message_of ROLE_USER (Some user_input)]) = Inr messages
      \<and> w_chat w (requests_made st) messages = ApiRaises e
      \<and> exn_class e = APITimeoutError
    \<longrightarrow> (\<exists>st'. process_message w user_input st = Some st'
            \<and> conversation_history st' =
                conversation_history st @ [Message_of ROLE_USER (Some user_input)]))"
proof (intro conjI impI)
  assume a: "map_raising Message_to_dict (conversation_history st) = Inr messages
      \<and> w_chat w (requests_made st) messages = ApiRaises e
      \<and> exn_class e = APITimeoutError"
  show "run_interaction_loop w st =
          Some (st\<lparr>requests_made := Suc (requests_made st),
                   stdout := stdout st
                     @ print_line (CHR 0x0A # ''[System Error] API request timeout: '' @ exn_str e)\<rparr>)"
    by (subst run_interaction_loop.simps) (simp add: turn_timeout[of st messages w e] a)
next
  let ?st = "st\<lparr>conversation_history :=
             conversation_history st @ [Message_of ROLE_USER (Some user_input)]\<rparr>"
  assume a: "map_raising Message_to_dict
          (conversation_history st @ [Message_of ROLE_USER (Some user_input)]) = Inr messages
      \<and> w_chat w (requests_made st) messages = ApiRaises e
      \<and> exn_class e = APITimeoutError"
  then have "turn w ?st =
     (?st\<lparr>requests_made := Suc (requests_made ?st),
         stdout := stdout ?st
            @ print_line (CHR 0x0A # ''[System Error] API request timeout: '' @ exn_str e)\<rparr>,
      Inr False)"
    by (intro turn_timeout[of ?st messages w e]) simp_all
  then have "process_message w user_input st =
     Some (?st\<lparr>requests_made := Suc (requests_made ?st),
         stdout := stdout ?st
            @ print_line (CHR 0x0A # ''[System Error] API request timeout: '' @ exn_str e)\<rparr>)"
    unfolding process_message_def by (subst run_interaction_loop.simps) simp
  then show "\<exists>st'. process_message w user_input st = Some st'
            \<and> conversation_history st' =
                conversation_history st @ [Message_of ROLE_USER (Some user_input)]"
    by simp
qed

theorem timeout_appends_nothing_witness:
  "\<forall>L clients.
     run_interaction_loop
       \<lparr>w_lib = L,
        w_chat = (\<lambda>n messages. ApiRaises (PyExn APITimeoutError ''Request timed out.'')),
        w_clients = clients\<rparr>
       \<lparr>conversation_history =
          [Message_of ROLE_SYSTEM (Some ''You are a helpful weather assistant.''),
           Message_of ROLE_USER (Some ''Weather in Paris'')],
        stdout = [], task_logs = [], requests_made = 0\<rparr>
     = Some \<lparr>conversation_history =
               [Message_of ROLE_SYSTEM (Some ''You are a helpful weather assistant.''),
                Message_of ROLE_USER (Some ''Weather in Paris'')],
             stdout = print_line (CHR 0x0A # ''[System Error] API request timeout: Request timed out.''),
             task_logs = [], requests_made = Suc 0\<rparr>"
proof (intro allI)
  fix L :: pylib and clients :: "nat \<Rightarrow> nat \<Rightarrow> http_client"
  let ?w = "\<lparr>w_lib = L,
        w_chat = (\<lambda>n messages. ApiRaises (PyExn APITimeoutError ''Request timed out.'')),
        w_clients = clients\<rparr>"
  let ?st = "\<lparr>conversation_history =
          [Message_of ROLE_SYSTEM (Some ''You are a helpful weather assistant.''),
           Message_of ROLE_USER (Some ''Weather in Paris'')],
        stdout = [], task_logs = [], requests_made = 0\<rparr>"
  obtain messages where m: "map_raising Message_to_dict (conversation_history ?st) = Inr messages"
    by (simp add: Message_to_dict_def Message_of_def ROLE_SYSTEM_def ROLE_USER_def ROLE_ASSISTANT_def)
  show "run_interaction_loop ?w ?st
     = Some \<lparr>conversation_history =
               [Message_of ROLE_SYSTEM (Some ''You are a helpful weather assistant.''),
                Message_of ROLE_USER (Some ''Weather in Paris'')],
             stdout = print_line (CHR 0x0A # ''[System Error] API request timeout: Request timed out.''),
             task_logs = [], requests_made = Suc 0\<rparr>"
    using timeout_appends_nothing
      [of ?st messages ?w "PyExn APITimeoutError ''Request timed out.''"] m
    by simp
qed

text \<open>
  \<^verbatim>\<open>Message.to_dict\<close> raises \<^verbatim>\<open>ValueError\<close> exactly for a message with role assistant,
  content absent or empty, and tool calls absent or empty. Constructing a message checks
  nothing.
\<close>

lemma to_dict_raises_iff:
  "raises ValueError (Message_to_dict m) \<longleftrightarrow>
      msg_role m = ''assistant''
      \<and> (msg_content m = None \<or> msg_content m = Some [])
      \<and> (msg_tool_calls m = None \<or> msg_tool_calls m = Some [])"
  by (cases "msg_tool_calls m")
     (auto simp: raises_def Message_to_dict_def has_content_def has_tool_calls_def ROLE_ASSISTANT_def)

lemma to_dict_returns_iff:
  "(\<exists>d. Message_to_dict m = Inr d) \<longleftrightarrow> \<not> raises ValueError (Message_to_dict m)"
  by (auto simp: raises_def Message_to_dict_def)

text \<open>
  When the stream carried non-empty content or the buffer holds a tool call, the assistant
  message that \<^verbatim>\<open>_handle_stream_response\<close> appends serializes.
\<close>

lemma nonempty_reply_serializes:
  assumes ne: "content \<noteq> [] \<or> buf \<noteq> []"
  shows "\<exists>a rest. conversation_history (fst (handle_stream_response w content buf st))
                     = conversation_history st @ a # rest
                 \<and> msg_role a = ''assistant''
                 \<and> (\<exists>d. Message_to_dict a = Inr d)"
proof (cases "buf = []")
  case True
  with ne have "content \<noteq> []" by simp
  with True show ?thesis
    by (simp add: handle_stream_response_def Message_of_def Message_to_dict_def
        has_content_def ROLE_ASSISTANT_def)
next
  case False
  let ?a = "(Message_of ROLE_ASSISTANT (if content \<noteq> [] then Some content else None))
              \<lparr>msg_tool_calls := Some (map to_history_dict (convert_tool_calls_buffer buf))\<rparr>"
  let ?st1 = "st\<lparr>conversation_history := conversation_history st @ [?a]\<rparr>"
  have "length (convert_tool_calls_buffer buf) = length buf"
    by (simp add: convert_tool_calls_buffer_def)
  with False have len: "convert_tool_calls_buffer buf \<noteq> []"
    by (metis length_0_conv)
  have ok: "\<exists>d. Message_to_dict ?a = Inr d"
    using len by (simp add: Message_to_dict_def has_tool_calls_def Message_of_def)
  have role: "msg_role ?a = ''assistant''"
    by (simp add: Message_of_def ROLE_ASSISTANT_def)
  have hist: "\<exists>rest. conversation_history (fst (handle_tool_calls w tcs ?st1))
                = conversation_history st @ ?a # rest" for tcs
    by (cases tcs) (auto simp: handle_tool_calls_def Let_def split: prod.splits sum.splits)
  have "fst (handle_stream_response w content buf st)
          = fst (handle_tool_calls w (convert_tool_calls_buffer buf) ?st1)"
    using False by (simp add: handle_stream_response_def Let_def split: prod.splits)
  with hist[of "convert_tool_calls_buffer buf"] ok role show ?thesis
    by metis
qed

text \<open>
  A transcript that holds a message \<^verbatim>\<open>to_dict\<close> rejects cannot be sent: the list
  comprehension of \<^verbatim>\<open>_create_api_stream\<close> raises before any request is made.
\<close>

lemma map_raising_rejected:
  "m \<in> set ms \<Longrightarrow> raises ValueError (Message_to_dict m) \<Longrightarrow>
   map_raising Message_to_dict ms =
     Inl (PyExn ValueError ''Assistant message must have either content or tool_calls'')"
proof (induction ms)
  case Nil
  then show ?case by simp
next
  case (Cons a ms)
  show ?case
  proof (cases "Message_to_dict a")
    case (Inl e)
    then show ?thesis by (simp add: Message_to_dict_def split: if_splits)
  next
    case (Inr d)
    with Cons.prems have "m \<in> set ms" by (auto simp: raises_def)
    with Cons.IH Cons.prems(2) Inr show ?thesis by simp
  qed
qed

lemma rejected_message_blocks_request:
  "m \<in> set (conversation_history st) \<Longrightarrow> raises ValueError (Message_to_dict m) \<Longrightarrow>
   create_api_stream w st =
     (st, Inl (PyExn ValueError ''Assistant message must have either content or tool_calls''))"
  by (simp add: create_api_stream_def map_raising_rejected)

text \<open>
  C4 (assistant-message invariant) does not hold of the code. Constructing a message
  checks nothing; the check is in \<^verbatim>\<open>Message.to_dict\<close>. After a stream with no content and
  no tool call, \<^verbatim>\<open>_handle_stream_response\<close> constructs the message with role assistant, no
  content and no tool calls, appends it to the transcript and returns normally; it is a
  message that \<^verbatim>\<open>to_dict\<close> rejects. So the transcript holds an assistant message with
  neither content nor tool call. Run from \<^verbatim>\<open>process_message\<close>: the user says \<^verbatim>\<open>Hello\<close>, the
  stream has a chunk with empty content and a chunk with none, and the transcript
  afterwards ends with that message; at the next user message the transcript fails to
  serialize, no request is made, and the loop ends with the line
  \<^verbatim>\<open>Unexpected error: Assistant message must have either content or tool_calls\<close>, whatever
  the chat service would have answered.
\<close>

theorem empty_reply_appends_rejected_message:
  "handle_stream_response w [] []
          \<lparr>conversation_history = [Message_of ROLE_USER (Some ''Hello'')], stdout = [],
           task_logs = [], requests_made = 1\<rparr>
        = (\<lparr>conversation_history =
               [Message_of ROLE_USER (Some ''Hello''), Message_of ROLE_ASSISTANT None],
             stdout = [], task_logs = [], requests_made = 1\<rparr>,
           Inr False)
   \<and> raises ValueError (Message_to_dict (Message_of ROLE_ASSISTANT None))
   \<and> process_message
        \<lparr>w_lib = lib,
         w_chat = (\<lambda>n messages. ApiStream
                     [\<lparr>sc_choices = [\<lparr>sd_content = Some [], sd_tool_calls = None\<rparr>]\<rparr>,
                      \<lparr>sc_choices = [\<lparr>sd_content = None, sd_tool_calls = None\<rparr>]\<rparr>] None),
         w_clients = clients\<rparr>
        ''Hello''
        \<lparr>conversation_history = [], stdout = [], task_logs = [], requests_made = 0\<rparr>
      = Some \<lparr>conversation_history =
                 [Message_of ROLE_USER (Some ''Hello''), Message_of ROLE_ASSISTANT None],
               stdout = ''Assistant: '' @ [CHR 0x0A], task_logs = [], requests_made = 1\<rparr>
   \<and> process_message
        \<lparr>w_lib = lib, w_chat = chat, w_clients = clients\<rparr>
        ''Weather in Paris''
        \<lparr>conversation_history =
           [Message_of ROLE_USER (Some ''Hello''), Message_of ROLE_ASSISTANT None],
         stdout = [], task_logs = [], requests_made = 1\<rparr>
      = Some \<lparr>conversation_history =
                 [Message_of ROLE_USER (Some ''Hello''), Message_of ROLE_ASSISTANT None,
                  Message_of ROLE_USER (Some ''Weather in Paris'')],
               stdout = print_line (''Unexpected error: Assistant message must have either content or tool_calls''),
               task_logs = [], requests_made = 1\<rparr>"
proof (intro conjI)
  show "handle_stream_response w [] []
          \<lparr>conversation_history = [Message_of ROLE_USER (Some ''Hello'')], stdout = [],
           task_logs = [], requests_made = 1\<rparr>
        = (\<lparr>conversation_history =
               [Message_of ROLE_USER (Some ''Hello''), Message_of ROLE_ASSISTANT None],
             stdout = [], task_logs = [], requests_made = 1\<rparr>,
           Inr False)"
    by (simp add: handle_stream_response_def)
  show "raises ValueError (Message_to_dict (Message_of ROLE_ASSISTANT None))"
    by (simp add: Message_of_def Message_to_dict_def raises_def has_content_def has_tool_calls_def)
  show "process_message
        \<lparr>w_lib = lib,
         w_chat = (\<lambda>n messages. ApiStream
                     [\<lparr>sc_choices = [\<lparr>sd_content = Some [], sd_tool_calls = None\<rparr>]\<rparr>,
                      \<lparr>sc_choices = [\<lparr>sd_content = None, sd_tool_calls = None\<rparr>]\<rparr>] None),
         w_clients = clients\<rparr>
        ''Hello''
        \<lparr>conversation_history = [], stdout = [], task_logs = [], requests_made = 0\<rparr>
      = Some \<lparr>conversation_history =
                 [Message_of ROLE_USER (Some ''Hello''), Message_of ROLE_ASSISTANT None],
               stdout = ''Assistant: '' @ [CHR 0x0A], task_logs = [], requests_made = 1\<rparr>"
    unfolding process_message_def
    by (subst run_interaction_loop.simps)
       (simp add: turn_def create_api_stream_def Message_to_dict_def Message_of_def
          ROLE_USER_def ROLE_ASSISTANT_def process_stream_def process_chunk_def str_truthy_def
          handle_stream_response_def CLI_ASSISTANT_PROMPT_def)
  show "process_message
        \<lparr>w_lib = lib, w_chat = chat, w_clients = clients\<rparr>
        ''Weather in Paris''
        \<lparr>conversation_history =
           [Message_of ROLE_USER (Some ''Hello''), Message_of ROLE_ASSISTANT None],
         stdout = [], task_logs = [], requests_made = 1\<rparr>
      = Some \<lparr>conversation_history =
                 [Message_of ROLE_USER (Some ''Hello''), Message_of ROLE_ASSISTANT None,
                  Message_of ROLE_USER (Some ''Weather in Paris'')],
               stdout = print_line (''Unexpected error: Assistant message must have either content or tool_calls''),
               task_logs = [], requests_made = 1\<rparr>"
    unfolding process_message_def
    by (subst run_interaction_loop.simps)
       (simp add: turn_def create_api_stream_def Message_to_dict_def Message_of_def
          ROLE_USER_def ROLE_ASSISTANT_def has_content_def has_tool_calls_def
          CLI_UNEXPECTED_ERROR_def)
qed

lemma first_tool_call_only:
  assumes "convert_tool_calls_buffer buf = tool_call # others"
    and "execute_tool_call (w_lib w) (w_clients w (requests_made st)) tool_call = (logs, Inr d)"
  shows "handle_stream_response w content buf st =
     (st\<lparr>conversation_history :=
           conversation_history st
           @ [(Message_of ROLE_ASSISTANT (if content \<noteq> [] then Some content else None))
                \<lparr>msg_tool_calls := Some (map to_history_dict (tool_call # others))\<rparr>,
              tool_message d],
         task_logs := task_logs st @ logs\<rparr>,
      Inr True)"
proof -
  from assms(1) have "buf \<noteq> []" by (auto simp: convert_tool_calls_buffer_def)
  then show ?thesis
    using assms by (simp add: handle_stream_response_def handle_tool_calls_def then_do_def)
qed

lemma first_tool_call_raises:
  assumes "convert_tool_calls_buffer buf = tool_call # others"
    and "execute_tool_call (w_lib w) (w_clients w (requests_made st)) tool_call = (logs, Inl e)"
  shows "handle_stream_response w content buf st =
     (st\<lparr>conversation_history :=
           conversation_history st
           @ [(Message_of ROLE_ASSISTANT (if content \<noteq> [] then Some content else None))
                \<lparr>msg_tool_calls := Some (map to_history_dict (tool_call # others))\<rparr>],
         task_logs := task_logs st @ logs\<rparr>,
      Inl e)"
proof -
  from assms(1) have "buf \<noteq> []" by (auto simp: convert_tool_calls_buffer_def)
  then show ?thesis
    using assms by (simp add: handle_stream_response_def handle_tool_calls_def then_do_def)
qed

text \<open>
  C8 (single-tool-call policy) does not hold of the code. With the one assembled tool call
  \<^verbatim>\<open>get_weather\<close> whose argument text is \<^verbatim>\<open>null\<close>, the assistant message with the tool
  call is appended, the execution of the call raises the parser's \<^verbatim>\<open>TypeError\<close>, and no
  tool-result message is appended; the exception reaches the handler of the loop, which
  ends it. (Lemma \<open>first_tool_call_only\<close>: whenever the execution of the first call
  returns a result, exactly its tool message is appended after the assistant message,
  the other calls are not executed, and the loop is told to continue.)
\<close>

theorem tool_call_with_null_arguments_gets_no_result:
  "handle_stream_response
     \<lparr>w_lib = \<lparr>lib_json_loads = json_loads, lib_literal_eval = leval, lib_str = str_of\<rparr>,
      w_chat = chat, w_clients = clients\<rparr>
     []
     [(0, \<lparr>ti_id = ''call_1'',
           ti_function = \<lparr>fn_name = ''get_weather'', fn_arguments = ''null''\<rparr>\<rparr>)]
     \<lparr>conversation_history = [Message_of ROLE_USER (Some ''Weather in Paris'')], stdout = [],
      task_logs = [], requests_made = 1\<rparr>
   = (\<lparr>conversation_history =
         [Message_of ROLE_USER (Some ''Weather in Paris''),
          (Message_of ROLE_ASSISTANT None)
            \<lparr>msg_tool_calls :=
               Some [\<lparr>hdict_id = ''call_1'', hdict_type = ''function'',
                      hdict_function = \<lparr>fdict_name = ''get_weather'', fdict_arguments = ''null''\<rparr>\<rparr>]\<rparr>],
       stdout = [], task_logs = [], requests_made = 1\<rparr>,
      Inl (PyExn TypeError (''argument of type '' @ quoted ''NoneType'' @ '' is not iterable'')))"
  by (simp add: handle_stream_response_def handle_tool_calls_def convert_tool_calls_buffer_def
      execute_tool_call_def parse_null to_history_dict_def InvokedFunction_to_dict_def then_do_def
      Message_of_def)

end
